theory Spec2Isabelle
  imports Main "HOL-Library.Sublist"
begin

section \<open>Shared vocabulary\<close>

text \<open>
  The repository relays chat messages between a webhook provider (Wazzup) and a
  conversational agent.  Three source files are embedded here:
  \<^item> \<^verbatim>\<open>processors/wazzup-message-queue-service.ts\<close>: the Redis-backed outbound queue;
  \<^item> \<^verbatim>\<open>processors/wazzup-queue-worker.ts\<close>: the worker draining it, and (second half of the
    file) the Redis stop-flag store;
  \<^item> the webhook route (\<^verbatim>\<open>unnamed/part_000\<close>): inbound filter, agent call, persistence of
    outbound records and detection of the operator commands.

  Log lines are kept as a level and a short ASCII tag naming the log site (the source's
  messages are Russian sentences with a metadata object).

  A JavaScript string is kept as the bytes of its UTF-8 form, so that a \<open>string\<close> literal
  of ASCII characters stands for the same text in the source.
\<close>

datatype level = Info | Warn | Error | Debug

type_synonym log_entry = "level \<times> string"

datatype error =
    ConfigurationError string  \<comment> \<open>\<^verbatim>\<open>throw new Error('...: REDIS_URL must be provided ...')\<close>\<close>
  | InvalidUrlError            \<comment> \<open>\<^verbatim>\<open>createClient({ url })\<close> threw on a URL it cannot parse\<close>
  | ConnectError               \<comment> \<open>\<^verbatim>\<open>client.connect()\<close> rejected\<close>
  | ClientClosedError          \<comment> \<open>a Redis command issued on a client that is not open\<close>
  | CommandError               \<comment> \<open>a Redis command rejected on an open client\<close>

text \<open>
  An asynchronous operation that may throw: the value or the error, together with the
  state it leaves behind.  \<open>bindE\<close> is \<^verbatim>\<open>await\<close> followed by the rest of the function body;
  an error skips the rest.
\<close>

type_synonym ('a, 's) outcome = "(error + 'a) \<times> 's"

definition bindE :: "('a, 's) outcome \<Rightarrow> ('a \<Rightarrow> 's \<Rightarrow> ('b, 's) outcome) \<Rightarrow> ('b, 's) outcome" where
  "bindE r f = (case r of (Inl e, s) \<Rightarrow> (Inl e, s) | (Inr a, s) \<Rightarrow> f a s)"

text \<open>JavaScript truthiness of an optional string: \<^verbatim>\<open>undefined\<close> and \<^verbatim>\<open>''\<close> are falsy.\<close>

definition truthy :: "string option \<Rightarrow> bool" where
  "truthy v = (case v of None \<Rightarrow> False | Some s \<Rightarrow> s \<noteq> [])"

text \<open>
  White space.  \<^verbatim>\<open>String.prototype.trim\<close> and the class \<^verbatim>\<open>\s\<close> of regular expressions
  know the same characters: tab, line feed, vertical tab, form feed, carriage return, space,
  U+00A0, U+1680, U+2000 to U+200A, U+2028, U+2029, U+202F, U+205F, U+3000 and U+FEFF.
  \<open>white_space\<close> lists their UTF-8 forms.  No form is the beginning of another, and in
  well-formed UTF-8 none can begin or end inside another character.
\<close>

definition white_space :: "string list" where
  "white_space =
     [[CHR 0x09], [CHR 0x0A], [CHR 0x0B], [CHR 0x0C], [CHR 0x0D], [CHR 0x20],
      [CHR 0xC2, CHR 0xA0],
      [CHR 0xE1, CHR 0x9A, CHR 0x80],
      [CHR 0xE2, CHR 0x80, CHR 0x80], [CHR 0xE2, CHR 0x80, CHR 0x81],
      [CHR 0xE2, CHR 0x80, CHR 0x82], [CHR 0xE2, CHR 0x80, CHR 0x83],
      [CHR 0xE2, CHR 0x80, CHR 0x84], [CHR 0xE2, CHR 0x80, CHR 0x85],
      [CHR 0xE2, CHR 0x80, CHR 0x86], [CHR 0xE2, CHR 0x80, CHR 0x87],
      [CHR 0xE2, CHR 0x80, CHR 0x88], [CHR 0xE2, CHR 0x80, CHR 0x89],
      [CHR 0xE2, CHR 0x80, CHR 0x8A],
      [CHR 0xE2, CHR 0x80, CHR 0xA8], [CHR 0xE2, CHR 0x80, CHR 0xA9],
      [CHR 0xE2, CHR 0x80, CHR 0xAF],
      [CHR 0xE2, CHR 0x81, CHR 0x9F],
      [CHR 0xE3, CHR 0x80, CHR 0x80],
      [CHR 0xEF, CHR 0xBB, CHR 0xBF]]"

text \<open>
  \<open>strip_one ps s\<close> takes one of the forms \<open>ps\<close> off the front of \<open>s\<close>, if \<open>s\<close> begins with
  one; \<open>strip_all\<close> does so as long as it can.  \<^verbatim>\<open>trim\<close> strips white space at both ends (at
  the end: the reversed forms off the front of the reversed text).
\<close>

definition strip_one :: "string list \<Rightarrow> string \<Rightarrow> string option" where
  "strip_one ps s =
     (case find (\<lambda>p. p \<noteq> [] \<and> prefix p s) ps of
        None \<Rightarrow> None
      | Some p \<Rightarrow> Some (drop (length p) s))"

function strip_all :: "string list \<Rightarrow> string \<Rightarrow> string" where
  "strip_all ps s = (case strip_one ps s of None \<Rightarrow> s | Some rest \<Rightarrow> strip_all ps rest)"
  by pat_completeness auto
termination
  by (relation "measure (\<lambda>(ps, s). length s)")
     (auto simp: strip_one_def find_Some_iff prefix_def split: option.splits)

declare strip_all.simps [simp del]

definition trim :: "string \<Rightarrow> string" where
  "trim s = rev (strip_all (map rev white_space) (rev (strip_all white_space s)))"

text \<open>
  \<^verbatim>\<open>replace(/\s+/g, '-')\<close>: every maximal run of white space becomes one hyphen.  The flag
  says that the text just before was white space.
\<close>

function replace_run :: "bool \<Rightarrow> string \<Rightarrow> string" where
  "replace_run in_run [] = []"
| "replace_run in_run (c # cs) =
     (case strip_one white_space (c # cs) of
        None \<Rightarrow> c # replace_run False cs
      | Some rest \<Rightarrow> (if in_run then [] else ''-'') @ replace_run True rest)"
  by pat_completeness auto
termination
proof (relation "measure (\<lambda>(in_run, s). length s)", goal_cases)
  case 1
  show ?case by simp
next
  case (2 in_run c cs)
  show ?case by simp
next
  case (3 in_run c cs rest)
  then obtain p where "p \<noteq> []" and "prefix p (c # cs)" and "rest = drop (length p) (c # cs)"
    by (auto simp: strip_one_def find_Some_iff split: option.splits)
  then have "length rest < length (c # cs)"
    by (auto simp: prefix_def)
  then show ?case by simp
qed

definition replace_ws :: "string \<Rightarrow> string" where
  "replace_ws s = replace_run False s"

text \<open>
  \<^verbatim>\<open>toLowerCase\<close>.  The letters A to Z go to a to z; U+212A (Kelvin sign) goes to k and
  U+0130 to i followed by U+0307.  These are all the characters whose lower case contains
  an ASCII character.  The other cased letters (other scripts) are kept as they are: their
  lower case is not modelled, and it contains no ASCII character, so a comparison of the
  result with a text of ASCII characters comes out as in the source.
\<close>

definition lower_char :: "char \<Rightarrow> char" where
  "lower_char c =
     (case map_of (zip ''ABCDEFGHIJKLMNOPQRSTUVWXYZ'' ''abcdefghijklmnopqrstuvwxyz'') c of
        None \<Rightarrow> c
      | Some l \<Rightarrow> l)"

function toLowerCase :: "string \<Rightarrow> string" where
  "toLowerCase [] = []"
| "toLowerCase (c # cs) =
     (if prefix [CHR 0xE2, CHR 0x84, CHR 0xAA] (c # cs) then CHR ''k'' # toLowerCase (drop 2 cs)
      else if prefix [CHR 0xC4, CHR 0xB0] (c # cs)
      then [CHR ''i'', CHR 0xCC, CHR 0x87] @ toLowerCase (drop 1 cs)
      else lower_char c # toLowerCase cs)"
  by pat_completeness auto
termination
  by (relation "measure length") auto

section \<open>The lazily connected Redis client\<close>

text \<open>
  Both services hold a Redis client, a cached connect promise and the same
  \<^verbatim>\<open>ensureClient\<close>:
  \<^verbatim>\<open>
  if (this.client.isOpen) return;
  this.connectPromise ??= this.client.connect();
  try { await this.connectPromise; }
  catch (error) { this.connectPromise = undefined; throw error; }
  \<close>
  Run to completion without another operation in between, the promise is settled by the
  time the \<^verbatim>\<open>await\<close> returns.  The outcome of the \<open>n\<close>-th call of \<^verbatim>\<open>client.connect()\<close>
  is given by the environment as \<open>connect n\<close>; \<open>connects\<close> counts the calls made.

  A command sent through an open client can reject as well (the connection drops, the server
  answers with an error).  The environment says of the \<open>n\<close>-th command the client sends
  whether it is answered, \<open>answers n\<close>; \<open>commands\<close> counts the commands sent.  A command
  that rejects is taken to have changed nothing on the server; the only rejected command in
  the statements below is an \<^verbatim>\<open>LLEN\<close>, which changes nothing in any case.
\<close>

datatype settled = Fulfilled | Rejected

record redis_client =
  isOpen :: bool
  connectPromise :: "settled option"
  connects :: nat
  commands :: nat

text \<open>The environment of a call: the two outcomes above and \<^verbatim>\<open>Date.now()\<close>.\<close>

record call_env =
  connect :: "nat \<Rightarrow> bool"
  answers :: "nat \<Rightarrow> bool"
  now :: int

definition client_connect :: "(nat \<Rightarrow> bool) \<Rightarrow> 'a redis_client_scheme \<Rightarrow> 'a redis_client_scheme" where
  "client_connect conn c =
     (if conn (connects c)
      then c\<lparr>isOpen := True, connectPromise := Some Fulfilled, connects := Suc (connects c)\<rparr>
      else c\<lparr>connectPromise := Some Rejected, connects := Suc (connects c)\<rparr>)"

definition ensureClient ::
  "(nat \<Rightarrow> bool) \<Rightarrow> 'a redis_client_scheme \<Rightarrow> (unit, 'a redis_client_scheme) outcome" where
  "ensureClient conn c =
     (if isOpen c then (Inr (), c)
      else
        let c1 = (case connectPromise c of None \<Rightarrow> client_connect conn c | Some p \<Rightarrow> c)
        in (case connectPromise c1 of
              Some Fulfilled \<Rightarrow> (Inr (), c1)
            | _ \<Rightarrow> (Inl ConnectError, c1\<lparr>connectPromise := None\<rparr>)))"

section \<open>The outbound queue service\<close>

text \<open>
  \<^verbatim>\<open>WazzupOutboundMessage\<close>; the field \<^verbatim>\<open>text\<close> is called \<open>msgText\<close> here.  \<^verbatim>\<open>attempt\<close>
  and \<^verbatim>\<open>timestamp\<close> are JavaScript numbers holding integers.
\<close>

record WazzupOutboundMessage =
  channelId :: string
  chatType :: string
  chatId :: string
  msgText :: string
  refMessageId :: "string option"
  attempt :: "int option"
  timestamp :: "int option"

text \<open>
  An element of a Redis list is a string.  \<^verbatim>\<open>JSON.stringify\<close> and \<^verbatim>\<open>JSON.parse\<close> are library
  functions: an element is either the serialisation of a message, which parses back to that
  message, or text that \<^verbatim>\<open>JSON.parse\<close> rejects.
\<close>

datatype element = Serialized WazzupOutboundMessage | Unparseable string

definition JSON_stringify :: "WazzupOutboundMessage \<Rightarrow> element" where
  "JSON_stringify m = Serialized m"

definition JSON_parse :: "element \<Rightarrow> WazzupOutboundMessage option" where
  "JSON_parse e = (case e of Serialized m \<Rightarrow> Some m | Unparseable t \<Rightarrow> None)"

text \<open>
  The service: its client, its configuration, the Redis lists it reaches through the client
  (a key with no list holds the empty list) and the lines it has logged.
\<close>

record queue_service = redis_client +
  queuePrefix :: string
  maxRetries :: int
  redis_lists :: "string \<Rightarrow> element list"
  logs :: "log_entry list"

record queue_options =
  opt_redisUrl :: "string option"
  opt_queuePrefix :: "string option"
  opt_maxRetries :: "int option"

definition no_options :: queue_options where
  "no_options = \<lparr>opt_redisUrl = None, opt_queuePrefix = None, opt_maxRetries = None\<rparr>"

text \<open>
  The constructor.  \<open>env_url\<close> is \<^verbatim>\<open>process.env.REDIS_URL\<close>; \<open>backend\<close> is the content of the
  Redis server the URL names.  \<^verbatim>\<open>createClient({ url })\<close> belongs to the client library and
  throws on a URL it cannot parse: \<open>accepts\<close> says which URLs it takes.
\<close>

definition WazzupMessageQueueService_new ::
  "(string \<Rightarrow> bool) \<Rightarrow> string option \<Rightarrow> (string \<Rightarrow> element list) \<Rightarrow> queue_options
     \<Rightarrow> error + queue_service" where
  "WazzupMessageQueueService_new accepts env_url backend opts =
     (let redisUrl = (case opt_redisUrl opts of None \<Rightarrow> env_url | Some u \<Rightarrow> Some u);
          prefix = (case opt_queuePrefix opts of None \<Rightarrow> ''mastra:wazzup-queue'' | Some p \<Rightarrow> p);
          retries = (case opt_maxRetries opts of None \<Rightarrow> 3 | Some n \<Rightarrow> n)
      in if \<not> truthy redisUrl
         then Inl (ConfigurationError ''WazzupMessageQueueService'')
         else if \<not> accepts (the redisUrl)
         then Inl InvalidUrlError
         else Inr \<lparr>isOpen = False, connectPromise = None, connects = 0, commands = 0,
                   queuePrefix = replace_ws prefix, maxRetries = retries,
                   redis_lists = backend, logs = []\<rparr>)"

definition log :: "level \<Rightarrow> string \<Rightarrow> queue_service \<Rightarrow> queue_service" where
  "log lvl msg s = s\<lparr>logs := logs s @ [(lvl, msg)]\<rparr>"

definition getQueueKey :: "queue_service \<Rightarrow> string" where
  "getQueueKey s = queuePrefix s @ '':main''"

definition getDeadLetterKey :: "queue_service \<Rightarrow> string" where
  "getDeadLetterKey s = queuePrefix s @ '':dead-letters''"

text \<open>
  The Redis commands used.  A command on a client that is not open is rejected by the
  client library before it is sent.  \<^verbatim>\<open>BLPOP\<close> waits for an element up to its timeout; with
  no other client pushing meanwhile, it answers null exactly when the list is empty.
\<close>

definition rPush ::
  "'e call_env_scheme \<Rightarrow> string \<Rightarrow> element \<Rightarrow> queue_service \<Rightarrow> (unit, queue_service) outcome" where
  "rPush env key v s =
     (if \<not> isOpen s then (Inl ClientClosedError, s)
      else if \<not> answers env (commands s)
      then (Inl CommandError, s\<lparr>commands := Suc (commands s)\<rparr>)
      else (Inr (), s\<lparr>redis_lists := (redis_lists s)(key := redis_lists s key @ [v]),
                      commands := Suc (commands s)\<rparr>))"

definition blPop ::
  "'e call_env_scheme \<Rightarrow> string \<Rightarrow> queue_service \<Rightarrow> (element option, queue_service) outcome" where
  "blPop env key s =
     (if \<not> isOpen s then (Inl ClientClosedError, s)
      else if \<not> answers env (commands s)
      then (Inl CommandError, s\<lparr>commands := Suc (commands s)\<rparr>)
      else (case redis_lists s key of
              [] \<Rightarrow> (Inr None, s\<lparr>commands := Suc (commands s)\<rparr>)
            | x # xs \<Rightarrow> (Inr (Some x), s\<lparr>redis_lists := (redis_lists s)(key := xs),
                                           commands := Suc (commands s)\<rparr>)))"

definition lLen ::
  "'e call_env_scheme \<Rightarrow> string \<Rightarrow> queue_service \<Rightarrow> (nat, queue_service) outcome" where
  "lLen env key s =
     (if \<not> isOpen s then (Inl ClientClosedError, s)
      else if \<not> answers env (commands s)
      then (Inl CommandError, s\<lparr>commands := Suc (commands s)\<rparr>)
      else (Inr (length (redis_lists s key)), s\<lparr>commands := Suc (commands s)\<rparr>))"

definition enqueue ::
  "'e call_env_scheme \<Rightarrow> WazzupOutboundMessage \<Rightarrow> queue_service \<Rightarrow> (unit, queue_service) outcome" where
  "enqueue env message s =
     bindE (ensureClient (connect env) s) (\<lambda>_ s1.
       let payload = message\<lparr>
             attempt := Some ((case attempt message of None \<Rightarrow> 0 | Some a \<Rightarrow> a) + 1),
             timestamp := Some (case timestamp message of None \<Rightarrow> now env | Some t \<Rightarrow> t)\<rparr>;
           queueKey = getQueueKey s1
       in bindE (rPush env queueKey (JSON_stringify payload) s1) (\<lambda>_ s2.
            bindE (lLen env queueKey s2) (\<lambda>queueLength s3.
              (Inr (), log Debug ''enqueue: added'' s3))))"

definition dequeue ::
  "'e call_env_scheme \<Rightarrow> queue_service \<Rightarrow> (WazzupOutboundMessage option, queue_service) outcome" where
  "dequeue env s =
     bindE (ensureClient (connect env) s) (\<lambda>_ s1.
       bindE (blPop env (getQueueKey s1) s1) (\<lambda>result s2.
         (case result of
            None \<Rightarrow> (Inr None, s2)
          | Some el \<Rightarrow>
              (case JSON_parse el of
                 Some message \<Rightarrow> (Inr (Some message), s2)
               | None \<Rightarrow> (Inr None, log Error ''dequeue: parse failed'' s2)))))"

definition retryMessage ::
  "'e call_env_scheme \<Rightarrow> WazzupOutboundMessage \<Rightarrow> queue_service \<Rightarrow> (bool, queue_service) outcome" where
  "retryMessage env message s =
     bindE (ensureClient (connect env) s) (\<lambda>_ s1.
       if (case attempt message of None \<Rightarrow> 0 | Some a \<Rightarrow> a) \<ge> maxRetries s1
       then bindE (rPush env (getDeadLetterKey s1) (JSON_stringify message)
                     (log Warn ''retry: attempts exhausted'' s1))
              (\<lambda>_ s2. (Inr False, s2))
       else bindE (enqueue env
                     (message\<lparr>attempt := Some (case attempt message of None \<Rightarrow> 0 | Some a \<Rightarrow> a)\<rparr>)
                     s1)
              (\<lambda>_ s2. (Inr True, log Debug ''retry: requeued'' s2)))"

section \<open>The queue worker\<close>

text \<open>
  What the HTTP call of \<^verbatim>\<open>sendToWazzup\<close> can do: answer with a 2xx status, answer with
  another status, be aborted by the send timeout, or fail otherwise.  The worker's
  environment adds the API token and the result of the call.
\<close>

datatype fetch_result = HttpOk | HttpNotOk | FetchAborted | FetchFailed

record worker_env = call_env +
  api_token :: "string option"
  fetch :: fetch_result

definition sendToWazzup ::
  "worker_env \<Rightarrow> WazzupOutboundMessage \<Rightarrow> queue_service \<Rightarrow> bool \<times> queue_service" where
  "sendToWazzup env message s =
     (if \<not> truthy (api_token env) then (False, log Warn ''send: no API token'' s)
      else (case fetch env of
              HttpOk \<Rightarrow> (True, s)
            | HttpNotOk \<Rightarrow> (False, log Error ''send: API returned an error'' s)
            | FetchAborted \<Rightarrow> (False, log Error ''send: timeout'' s)
            | FetchFailed \<Rightarrow> (False, log Error ''send: failed'' s)))"

text \<open>
  \<^verbatim>\<open>processMessage\<close>: a failed send goes to \<^verbatim>\<open>retryMessage\<close>; an exception inside the
  \<^verbatim>\<open>try\<close> block is logged and followed by one more \<^verbatim>\<open>retryMessage\<close>, whose own exception
  leaves the function.
\<close>

definition processMessage ::
  "worker_env \<Rightarrow> WazzupOutboundMessage \<Rightarrow> queue_service \<Rightarrow> (unit, queue_service) outcome" where
  "processMessage env message s =
     (case sendToWazzup env message (log Info ''worker: processing'' s) of
        (True, s1) \<Rightarrow> (Inr (), log Info ''worker: sent'' s1)
      | (False, s1) \<Rightarrow>
          (case retryMessage env message s1 of
             (Inr shouldRetry, s2) \<Rightarrow>
               (Inr (), if shouldRetry then log Warn ''worker: requeued'' s2
                        else log Error ''worker: dead-lettered'' s2)
           | (Inl e, s2) \<Rightarrow>
               bindE (retryMessage env message (log Error ''worker: processing failed'' s2))
                 (\<lambda>_ s3. (Inr (), s3))))"

text \<open>
  The worker constructs its own queue service, with the logger as the only option, and
  starts unless \<^verbatim>\<open>enabled\<close> is false.  \<open>processQueue_turn\<close> is one turn of the loop of
  \<^verbatim>\<open>processQueue\<close>; the loop runs one turn for each environment given, while \<^verbatim>\<open>isRunning\<close>
  holds (the flag is cleared by \<^verbatim>\<open>stop()\<close>; the pause after a loop-level error is not
  modelled).
\<close>

record WazzupQueueWorker =
  queueService :: queue_service
  isRunning :: bool

definition WazzupQueueWorker_new ::
  "(string \<Rightarrow> bool) \<Rightarrow> string option \<Rightarrow> (string \<Rightarrow> element list) \<Rightarrow> bool
     \<Rightarrow> error + WazzupQueueWorker" where
  "WazzupQueueWorker_new accepts env_url backend enabled =
     (case WazzupMessageQueueService_new accepts env_url backend no_options of
        Inl e \<Rightarrow> Inl e
      | Inr svc \<Rightarrow>
          Inr \<lparr>queueService = (if enabled then log Info ''worker: started'' svc else svc),
               isRunning = enabled\<rparr>)"

definition processQueue_turn :: "worker_env \<Rightarrow> queue_service \<Rightarrow> queue_service" where
  "processQueue_turn env s =
     (case bindE (dequeue env s) (\<lambda>message s1.
             (case message of
                None \<Rightarrow> (Inr (), s1)
              | Some m \<Rightarrow> processMessage env m s1)) of
        (Inr _, s') \<Rightarrow> s'
      | (Inl e, s') \<Rightarrow> log Error ''worker: loop error'' s')"

fun processQueue :: "worker_env list \<Rightarrow> WazzupQueueWorker \<Rightarrow> WazzupQueueWorker" where
  "processQueue [] w = w"
| "processQueue (env # envs) w =
     (if isRunning w
      then processQueue envs (w\<lparr>queueService := processQueue_turn env (queueService w)\<rparr>)
      else w)"

section \<open>The stop-flag store\<close>

record stop_service = redis_client +
  keyPrefix :: string
  strings :: "string \<Rightarrow> string option"

definition RedisStopFlagService_new ::
  "(string \<Rightarrow> bool) \<Rightarrow> string option \<Rightarrow> (string \<Rightarrow> string option) \<Rightarrow> string option
     \<Rightarrow> string option \<Rightarrow> error + stop_service" where
  "RedisStopFlagService_new accepts env_url backend opt_url opt_prefix =
     (let redisUrl = (case opt_url of None \<Rightarrow> env_url | Some u \<Rightarrow> Some u);
          prefix = (case opt_prefix of None \<Rightarrow> ''mastra:input-stop'' | Some p \<Rightarrow> p)
      in if \<not> truthy redisUrl
         then Inl (ConfigurationError ''RedisStopFlagService'')
         else if \<not> accepts (the redisUrl)
         then Inl InvalidUrlError
         else Inr \<lparr>isOpen = False, connectPromise = None, connects = 0, commands = 0,
                   keyPrefix = replace_ws prefix, strings = backend\<rparr>)"

definition buildKey :: "stop_service \<Rightarrow> string \<Rightarrow> string" where
  "buildKey s chat = keyPrefix s @ '':'' @ chat"

definition client_set ::
  "'e call_env_scheme \<Rightarrow> string \<Rightarrow> string \<Rightarrow> stop_service \<Rightarrow> (unit, stop_service) outcome" where
  "client_set env key v s =
     (if \<not> isOpen s then (Inl ClientClosedError, s)
      else if \<not> answers env (commands s)
      then (Inl CommandError, s\<lparr>commands := Suc (commands s)\<rparr>)
      else (Inr (), s\<lparr>strings := (strings s)(key \<mapsto> v), commands := Suc (commands s)\<rparr>))"

definition client_del ::
  "'e call_env_scheme \<Rightarrow> string \<Rightarrow> stop_service \<Rightarrow> (unit, stop_service) outcome" where
  "client_del env key s =
     (if \<not> isOpen s then (Inl ClientClosedError, s)
      else if \<not> answers env (commands s)
      then (Inl CommandError, s\<lparr>commands := Suc (commands s)\<rparr>)
      else (Inr (), s\<lparr>strings := (strings s)(key := None), commands := Suc (commands s)\<rparr>))"

definition setStop ::
  "'e call_env_scheme \<Rightarrow> string \<Rightarrow> string \<Rightarrow> stop_service \<Rightarrow> (unit, stop_service) outcome" where
  "setStop env chat v s =
     bindE (ensureClient (connect env) s) (\<lambda>_ s1. client_set env (buildKey s1 chat) v s1)"

definition clearStop ::
  "'e call_env_scheme \<Rightarrow> string \<Rightarrow> stop_service \<Rightarrow> (unit, stop_service) outcome" where
  "clearStop env chat s =
     bindE (ensureClient (connect env) s) (\<lambda>_ s1. client_del env (buildKey s1 chat) s1)"

section \<open>The webhook route\<close>

text \<open>
  \<^verbatim>\<open>WazzupMessage\<close> is declared by the webhook service; these are the fields the route reads,
  each optional, as the route guards every one of them.
\<close>

record WazzupMessage =
  wm_messageId :: "string option"
  wm_chatId :: "string option"
  wm_channelId :: "string option"
  wm_chatType :: "string option"
  wm_type :: "string option"
  wm_text :: "string option"
  wm_contentUri :: "string option"
  wm_status :: "string option"
  wm_isEcho :: "bool option"
  wm_authorName :: "string option"

text \<open>
  The text handed to the agent is a list of segments joined by blank lines; each segment
  is kept with its kind instead of the Russian sentence that wraps it.  The same holds for
  the placeholder text of an outbound record that has an attachment and no text; its kind is
  \<^verbatim>\<open>message.type\<close>, with a default word when absent.
\<close>

datatype segment =
    OriginalText string
  | AudioTranscript string
  | AudioLink string
  | ImageDescription string
  | ImageLink string
  | ContentLink string string

datatype outbound_text = Plain string | Placeholder "string option" string

datatype agent_outcome = Replies "string list" | AgentAbortError | AgentError

datatype source = Agent | Manager

text \<open>
  A record of conversation history (\<^verbatim>\<open>MastraMessageV2\<close>) without its generated id and
  creation date.
\<close>

record MastraMessage =
  threadId :: string
  resourceId :: string
  mm_type :: string
  mm_text :: outbound_text
  mm_source :: source
  wazzupMessageId :: "string option"
  mm_status :: "string option"

record WazzupOutboundPayload =
  p_channelId :: string
  p_chatType :: string
  p_chatId :: string
  p_text :: string
  p_refMessageId :: "string option"

text \<open>
  The environment of the route: the process environment, the URLs the Redis client library
  takes, the content of the Redis server,
  the media service, the agent (\<^verbatim>\<open>agent.generate\<close> followed by \<^verbatim>\<open>extractAssistantReplies\<close>,
  or the exception thrown), whether the agent has a memory, and the result of a direct HTTP
  send.
\<close>

record route_env = call_env +
  REDIS_URL :: "string option"
  WAZZUP_API_TOKEN :: "string option"
  USE_WAZZUP_QUEUE :: bool
  WAZZUP_TARGET_CHAT_IDS :: "string option"
  createClient_accepts :: "string \<Rightarrow> bool"
  queue_backend :: "string \<Rightarrow> element list"
  stop_backend :: "string \<Rightarrow> string option"
  transcribeAudioFromUrl :: "string \<Rightarrow> string option"
  describeImageFromUrl :: "string \<Rightarrow> string option"
  agent_generate :: "WazzupMessage \<Rightarrow> segment list \<Rightarrow> agent_outcome"
  agent_memory :: bool
  reply_fetch :: fetch_result

text \<open>
  The module-level variables of the route and what the route has done so far: direct HTTP
  sends issued, calls of the agent, batches saved to the agent's memory, lines logged.
\<close>

record route_state =
  redisStopFlagService :: "stop_service option"
  messageQueueService :: "queue_service option"
  direct_sends :: "WazzupOutboundPayload list"
  agent_calls :: "(WazzupMessage \<times> segment list) list"
  memory_saved :: "MastraMessage list list"
  route_logs :: "log_entry list"

definition rlog :: "level \<Rightarrow> string \<Rightarrow> route_state \<Rightarrow> route_state" where
  "rlog lvl msg st = st\<lparr>route_logs := route_logs st @ [(lvl, msg)]\<rparr>"

text \<open>
  Loading the module: \<^verbatim>\<open>try { redisStopFlagService = new RedisStopFlagService(); }
  catch (error) { console.warn(...) }\<close>.
\<close>

definition route_module_init :: "route_env \<Rightarrow> route_state" where
  "route_module_init env =
     (let st0 = \<lparr>redisStopFlagService = None, messageQueueService = None, direct_sends = [],
                  agent_calls = [], memory_saved = [], route_logs = []\<rparr>
      in (case RedisStopFlagService_new (createClient_accepts env) (REDIS_URL env)
                  (stop_backend env) None None of
            Inr svc \<Rightarrow> st0\<lparr>redisStopFlagService := Some svc\<rparr>
          | Inl e \<Rightarrow> rlog Warn ''RedisStopFlagService init failed, stop commands disabled'' st0))"

fun split_on :: "char \<Rightarrow> string \<Rightarrow> string list" where
  "split_on d [] = [[]]"
| "split_on d (c # cs) =
     (if c = d then [] # split_on d cs
      else (case split_on d cs of [] \<Rightarrow> [[c]] | w # ws \<Rightarrow> (c # w) # ws))"

definition resolveTargetChatIds :: "route_env \<Rightarrow> string list" where
  "resolveTargetChatIds env =
     (case WAZZUP_TARGET_CHAT_IDS env of
        None \<Rightarrow> [''77066318623'', ''77475318623'']
      | Some fromEnv \<Rightarrow>
          if fromEnv \<noteq> [] \<and> trim fromEnv \<noteq> []
          then filter (\<lambda>v. v \<noteq> []) (map trim (split_on CHR '','' fromEnv))
          else [''77066318623'', ''77475318623''])"

definition shouldHandleMessage :: "WazzupMessage \<Rightarrow> string list \<Rightarrow> bool" where
  "shouldHandleMessage message allowedChatIds =
     (if wm_isEcho message = Some True then False
      else if truthy (wm_status message) \<and> wm_status message \<noteq> Some ''inbound'' then False
      else if \<not> truthy (wm_chatId message) then False
      else if allowedChatIds = [] then False
      else (case wm_chatId message of None \<Rightarrow> False | Some c \<Rightarrow> c \<in> set allowedChatIds))"

definition resolveMessageText :: "route_env \<Rightarrow> WazzupMessage \<Rightarrow> segment list option" where
  "resolveMessageText env message =
     (let originalText = (case wm_text message of None \<Rightarrow> [] | Some t \<Rightarrow> trim t);
          segments0 = (if originalText \<noteq> [] then [OriginalText originalText] else []);
          uri = (case wm_contentUri message of None \<Rightarrow> [] | Some u \<Rightarrow> u);
          segments =
            (if truthy (wm_contentUri message) \<and> wm_type message = Some ''audio'' then
               (if truthy (transcribeAudioFromUrl env uri)
                then segments0 @ [AudioTranscript (the (transcribeAudioFromUrl env uri))]
                else segments0 @ [AudioLink uri])
             else if truthy (wm_contentUri message) \<and> wm_type message = Some ''image'' then
               (if truthy (describeImageFromUrl env uri)
                then segments0 @ [ImageDescription (the (describeImageFromUrl env uri))]
                else segments0 @ [ImageLink uri])
             else if segments0 = [] \<and> truthy (wm_contentUri message) then
               [ContentLink (case wm_type message of None \<Rightarrow> ''content'' | Some k \<Rightarrow> k) uri]
             else segments0)
      in if segments = [] then None else Some segments)"

definition shouldPersistOutboundMessage :: "WazzupMessage \<Rightarrow> bool" where
  "shouldPersistOutboundMessage message =
     (if \<not> truthy (wm_chatId message) then False
      else if wm_status message = Some ''inbound'' then False
      else wm_status message = Some ''sent'')"

definition resolveOutboundMessageText :: "WazzupMessage \<Rightarrow> outbound_text option" where
  "resolveOutboundMessageText message =
     (let originalText = (case wm_text message of None \<Rightarrow> [] | Some t \<Rightarrow> trim t)
      in if originalText \<noteq> [] then Some (Plain originalText)
         else (case wm_contentUri message of
                 None \<Rightarrow> None
               | Some u \<Rightarrow> if u \<noteq> [] then Some (Placeholder (wm_type message) u) else None))"

text \<open>
  The body of the loop of \<^verbatim>\<open>persistOutboundMessages\<close>, on the records collected so far and
  the state.  \<open>trimmed\<close> is \<^verbatim>\<open>text.trim().toLowerCase()\<close>; the placeholder sentence starts
  with a Cyrillic word and is no command, so it has none.  Each \<^verbatim>\<open>continue\<close> ends the body.
\<close>

definition persist_one ::
  "route_env \<Rightarrow> WazzupMessage \<Rightarrow> MastraMessage list \<times> route_state
     \<Rightarrow> MastraMessage list \<times> route_state" where
  "persist_one env message acc =
     (case acc of (records, st) \<Rightarrow>
       (case resolveOutboundMessageText message of
          None \<Rightarrow> (records, rlog Debug ''persist: no text, no attachment'' st)
        | Some text \<Rightarrow>
            let source = (if wm_isEcho message = Some True \<and> \<not> truthy (wm_authorName message)
                          then Agent else Manager);
                trimmed = (case text of Plain t \<Rightarrow> Some (toLowerCase (trim t))
                                      | Placeholder k u \<Rightarrow> None);
                chat = (case wm_chatId message of None \<Rightarrow> ''undefined'' | Some c \<Rightarrow> c);
                pushed = records @
                  [\<lparr>threadId = chat, resourceId = ''wazzup'',
                    mm_type = (case wm_type message of None \<Rightarrow> ''text'' | Some k \<Rightarrow> k),
                    mm_text = text, mm_source = source,
                    wazzupMessageId = wm_messageId message, mm_status = wm_status message\<rparr>]
            in if source \<noteq> Agent \<and> redisStopFlagService st \<noteq> None then
                 (if trimmed = Some ''/stop'' then
                    (case setStop env chat ''stop'' (the (redisStopFlagService st)) of
                       (Inr u, svc') \<Rightarrow>
                         (records, rlog Info ''stop flag set''
                                     (st\<lparr>redisStopFlagService := Some svc'\<rparr>))
                     | (Inl e, svc') \<Rightarrow>
                         (records, rlog Error ''stop flag not set''
                                     (st\<lparr>redisStopFlagService := Some svc'\<rparr>)))
                  else if trimmed = Some ''/start'' then
                    (case clearStop env chat (the (redisStopFlagService st)) of
                       (Inr u, svc') \<Rightarrow>
                         (records, rlog Info ''stop flag cleared''
                                     (st\<lparr>redisStopFlagService := Some svc'\<rparr>))
                     | (Inl e, svc') \<Rightarrow>
                         (records, rlog Error ''stop flag not cleared''
                                     (st\<lparr>redisStopFlagService := Some svc'\<rparr>)))
                  else (pushed, st))
               else (pushed, st)))"

fun persist_loop ::
  "route_env \<Rightarrow> WazzupMessage list \<Rightarrow> MastraMessage list \<times> route_state
     \<Rightarrow> MastraMessage list \<times> route_state" where
  "persist_loop env [] acc = acc"
| "persist_loop env (message # rest) acc = persist_loop env rest (persist_one env message acc)"

definition outboundMessages :: "WazzupMessage list \<Rightarrow> string list \<Rightarrow> WazzupMessage list" where
  "outboundMessages messages allowedChatIds =
     filter (\<lambda>message. shouldPersistOutboundMessage message
               \<and> (case wm_chatId message of None \<Rightarrow> [] | Some c \<Rightarrow> c) \<in> set allowedChatIds)
       messages"

definition persistOutboundMessages ::
  "route_env \<Rightarrow> WazzupMessage list \<Rightarrow> string list \<Rightarrow> route_state \<Rightarrow> route_state" where
  "persistOutboundMessages env messages allowedChatIds st =
     (if outboundMessages messages allowedChatIds = [] then st
      else if \<not> agent_memory env then rlog Warn ''persist: agent has no memory'' st
      else (case persist_loop env (outboundMessages messages allowedChatIds) ([], st) of
              (records, st1) \<Rightarrow>
                if records = [] then st1
                else rlog Info ''persist: saved''
                       (st1\<lparr>memory_saved := memory_saved st1 @ [records]\<rparr>)))"

text \<open>
  Sending a reply.  \<^verbatim>\<open>sendReplyViaHttp\<close> catches whatever the HTTP call throws.
  \<^verbatim>\<open>sendReplyToWazzup\<close> constructs the queue service on first use and enqueues; an exception
  of either is caught and answered by a direct send (detached with \<^verbatim>\<open>queueMicrotask\<close> in the
  source, run at once here).
\<close>

definition sendReplyViaHttp :: "route_env \<Rightarrow> WazzupOutboundPayload \<Rightarrow> route_state \<Rightarrow> route_state" where
  "sendReplyViaHttp env payload st =
     (if \<not> truthy (WAZZUP_API_TOKEN env) then rlog Warn ''reply: no API token'' st
      else
        let st1 = (rlog Info ''reply: sending'' st)\<lparr>direct_sends := direct_sends st @ [payload]\<rparr>
        in (case reply_fetch env of
              HttpOk \<Rightarrow> rlog Info ''reply: sent'' st1
            | HttpNotOk \<Rightarrow> rlog Error ''reply: API returned an error'' st1
            | FetchAborted \<Rightarrow> rlog Error ''reply: timeout'' st1
            | FetchFailed \<Rightarrow> rlog Error ''reply: failed'' st1))"

definition sendReplyToWazzup :: "route_env \<Rightarrow> WazzupOutboundPayload \<Rightarrow> route_state \<Rightarrow> route_state" where
  "sendReplyToWazzup env payload st =
     (if USE_WAZZUP_QUEUE env then
        (case (case messageQueueService st of
                 Some svc \<Rightarrow> Inr svc
               | None \<Rightarrow>
                   WazzupMessageQueueService_new (createClient_accepts env) (REDIS_URL env)
                     (queue_backend env) no_options) of
           Inl e \<Rightarrow> sendReplyViaHttp env payload (rlog Error ''reply: enqueue failed'' st)
         | Inr svc \<Rightarrow>
             (case enqueue env
                     \<lparr>channelId = p_channelId payload, chatType = p_chatType payload,
                      chatId = p_chatId payload, msgText = p_text payload,
                      refMessageId = p_refMessageId payload, attempt = None, timestamp = None\<rparr>
                     svc of
                (Inr u, svc') \<Rightarrow>
                  rlog Info ''reply: enqueued'' (st\<lparr>messageQueueService := Some svc'\<rparr>)
              | (Inl e, svc') \<Rightarrow>
                  sendReplyViaHttp env payload
                    (rlog Error ''reply: enqueue failed'' (st\<lparr>messageQueueService := Some svc'\<rparr>))))
      else sendReplyViaHttp env payload st)"

fun send_replies ::
  "route_env \<Rightarrow> WazzupMessage \<Rightarrow> string list \<Rightarrow> route_state \<Rightarrow> route_state" where
  "send_replies env message [] st = st"
| "send_replies env message (reply # replies) st =
     send_replies env message replies
       (sendReplyToWazzup env
          \<lparr>p_channelId = the (wm_channelId message), p_chatType = the (wm_chatType message),
           p_chatId = the (wm_chatId message), p_text = reply, p_refMessageId = None\<rparr> st)"

text \<open>
  The loop of \<^verbatim>\<open>processInboundMessages\<close>.  \<^verbatim>\<open>send_replies\<close> is reached only past the guard
  on \<^verbatim>\<open>chatId\<close>, \<^verbatim>\<open>channelId\<close> and \<^verbatim>\<open>chatType\<close>, so the three are present there.  In the
  \<^verbatim>\<open>catch\<close> block an \<^verbatim>\<open>AbortError\<close> is logged and followed by \<^verbatim>\<open>return\<close>; any other exception
  is logged and the loop goes on.
\<close>

fun inbound_loop ::
  "route_env \<Rightarrow> string list \<Rightarrow> WazzupMessage list \<Rightarrow> route_state \<Rightarrow> route_state" where
  "inbound_loop env allowedChatIds [] st = st"
| "inbound_loop env allowedChatIds (message # rest) st =
     (if \<not> shouldHandleMessage message allowedChatIds then inbound_loop env allowedChatIds rest st
      else if \<not> truthy (wm_chatId message) \<or> \<not> truthy (wm_channelId message)
              \<or> \<not> truthy (wm_chatType message)
      then inbound_loop env allowedChatIds rest (rlog Warn ''inbound: missing ids'' st)
      else (case resolveMessageText env message of
              None \<Rightarrow> inbound_loop env allowedChatIds rest (rlog Debug ''inbound: no text'' st)
            | Some userText \<Rightarrow>
                let st1 = (rlog Info ''inbound: to agent'' st)
                            \<lparr>agent_calls := agent_calls st @ [(message, userText)]\<rparr>
                in (case agent_generate env message userText of
                      Replies replies \<Rightarrow>
                        if replies = []
                        then inbound_loop env allowedChatIds rest
                               (rlog Warn ''inbound: empty reply''
                                  (rlog Info ''inbound: replies'' st1))
                        else inbound_loop env allowedChatIds rest
                               (send_replies env message replies
                                  (rlog Info ''inbound: replies'' st1))
                    | AgentAbortError \<Rightarrow> rlog Error ''inbound: agent timeout'' st1
                    | AgentError \<Rightarrow>
                        inbound_loop env allowedChatIds rest
                          (rlog Error ''inbound: agent error'' st1))))"

definition processInboundMessages :: "route_env \<Rightarrow> WazzupMessage list \<Rightarrow> route_state \<Rightarrow> route_state" where
  "processInboundMessages env messages st =
     inbound_loop env (resolveTargetChatIds env) messages st"

section \<open>Vocabulary of the statements\<close>

text \<open>
  The backend is \<open>reachable\<close> for an operation when \<^verbatim>\<open>ensureClient\<close> will succeed and
  leave an open client: the client is open already, or no promise is cached and the next
  connect succeeds.  The environment is \<open>answering\<close> when every command is answered, and the
  backend is \<open>ready\<close> when it is reachable and answering.  \<open>opened\<close> is the client after
  \<^verbatim>\<open>ensureClient\<close>.
\<close>

definition reachable :: "'e call_env_scheme \<Rightarrow> 'a redis_client_scheme \<Rightarrow> bool" where
  "reachable env c = (isOpen c \<or> (connectPromise c = None \<and> connect env (connects c)))"

definition answering :: "'e call_env_scheme \<Rightarrow> bool" where
  "answering env = (\<forall>n. answers env n)"

definition ready :: "'e call_env_scheme \<Rightarrow> 'a redis_client_scheme \<Rightarrow> bool" where
  "ready env c = (reachable env c \<and> answering env)"

definition opened :: "'a redis_client_scheme \<Rightarrow> 'a redis_client_scheme" where
  "opened c =
     (if isOpen c then c
      else c\<lparr>isOpen := True, connectPromise := Some Fulfilled, connects := Suc (connects c)\<rparr>)"

text \<open>The record \<^verbatim>\<open>enqueue\<close> writes for a message, at enqueue time \<open>t\<close>.\<close>

definition payload_of :: "int \<Rightarrow> WazzupOutboundMessage \<Rightarrow> WazzupOutboundMessage" where
  "payload_of t m =
     m\<lparr>attempt := Some ((case attempt m of None \<Rightarrow> 0 | Some a \<Rightarrow> a) + 1),
       timestamp := Some (case timestamp m of None \<Rightarrow> t | Some t' \<Rightarrow> t')\<rparr>"

text \<open>A send fails when there is no API token or the HTTP call does not answer 2xx.\<close>

definition send_fails :: "worker_env \<Rightarrow> bool" where
  "send_fails env = (\<not> truthy (api_token env) \<or> fetch env \<noteq> HttpOk)"

text \<open>
  Following one message through the queue.  A record is a copy of the message \<open>m\<close> when it
  parses to a message with the channel, chat type, chat, text and reference of \<open>m\<close>; the
  attempt and the timestamp are what the queue changes.  \<open>copies m xs\<close> are the copies in a
  list, in order; \<open>main_copies\<close> and \<open>dead_copies\<close> are those in the two lists of a
  service.  \<open>sends m envs s\<close> lists the sends of \<open>m\<close> while the worker takes one turn for
  each environment from the state \<open>s\<close>: one entry for each turn that finds a copy of \<open>m\<close> at
  the head of the main list, true when that send fails.
\<close>

definition same_message :: "WazzupOutboundMessage \<Rightarrow> WazzupOutboundMessage \<Rightarrow> bool" where
  "same_message r m =
     (channelId r = channelId m \<and> chatType r = chatType m \<and> chatId r = chatId m
      \<and> msgText r = msgText m \<and> refMessageId r = refMessageId m)"

definition copy_of :: "WazzupOutboundMessage \<Rightarrow> element \<Rightarrow> bool" where
  "copy_of m e = (case JSON_parse e of None \<Rightarrow> False | Some r \<Rightarrow> same_message r m)"

definition copies :: "WazzupOutboundMessage \<Rightarrow> element list \<Rightarrow> element list" where
  "copies m xs = filter (copy_of m) xs"

definition main_copies :: "WazzupOutboundMessage \<Rightarrow> queue_service \<Rightarrow> element list" where
  "main_copies m s = copies m (redis_lists s (getQueueKey s))"

definition dead_copies :: "WazzupOutboundMessage \<Rightarrow> queue_service \<Rightarrow> element list" where
  "dead_copies m s = copies m (redis_lists s (getDeadLetterKey s))"

definition at_head :: "WazzupOutboundMessage \<Rightarrow> queue_service \<Rightarrow> bool" where
  "at_head m s =
     (case redis_lists s (getQueueKey s) of [] \<Rightarrow> False | e # rest \<Rightarrow> copy_of m e)"

fun sends :: "WazzupOutboundMessage \<Rightarrow> worker_env list \<Rightarrow> queue_service \<Rightarrow> bool list" where
  "sends m [] s = []"
| "sends m (env # envs) s =
     (if at_head m s then [send_fails env] else []) @ sends m envs (processQueue_turn env s)"

text \<open>
  An outbound record is the operator command \<open>w\<close> when the route does not attribute it to
  the agent and its trimmed, lower-cased text is \<open>w\<close>; \<open>store_call\<close> is the stop-flag store
  call that belongs to the command.
\<close>

definition operator_command :: "WazzupMessage \<Rightarrow> string \<Rightarrow> bool" where
  "operator_command m w =
     (\<not> (wm_isEcho m = Some True \<and> \<not> truthy (wm_authorName m))
      \<and> (case wm_text m of None \<Rightarrow> False | Some t \<Rightarrow> toLowerCase (trim t) = w))"

definition store_call ::
  "'e call_env_scheme \<Rightarrow> string \<Rightarrow> string \<Rightarrow> stop_service \<Rightarrow> (unit, stop_service) outcome" where
  "store_call env w c svc =
     (if w = ''/stop'' then setStop env c ''stop'' svc else clearStop env c svc)"

text \<open>A record of the payload that the persistence path considers.\<close>

definition persist_candidate :: "string list \<Rightarrow> WazzupMessage \<Rightarrow> bool" where
  "persist_candidate A m =
     (case wm_chatId m of
        None \<Rightarrow> False
      | Some c \<Rightarrow> c \<noteq> [] \<and> wm_status m = Some ''sent'' \<and> c \<in> set A)"

subsection \<open>Concrete inputs\<close>

definition demo_env :: call_env where
  "demo_env = \<lparr>connect = (\<lambda>n. True), answers = (\<lambda>n. True), now = 1700000000000\<rparr>"

definition demo_message :: WazzupOutboundMessage where
  "demo_message =
     \<lparr>channelId = ''channel-1'', chatType = ''whatsapp'', chatId = ''77066318623'',
      msgText = ''hello'', refMessageId = None, attempt = None, timestamp = None\<rparr>"

definition older_message :: WazzupOutboundMessage where
  "older_message =
     \<lparr>channelId = ''channel-1'', chatType = ''whatsapp'', chatId = ''77475318623'',
      msgText = ''earlier reply'', refMessageId = None, attempt = Some 1,
      timestamp = Some 1699999999000\<rparr>"

definition open_service :: queue_service where
  "open_service =
     \<lparr>isOpen = True, connectPromise = Some Fulfilled, connects = 1, commands = 0,
      queuePrefix = ''mastra:wazzup-queue'', maxRetries = 3,
      redis_lists = (\<lambda>k. []), logs = []\<rparr>"

definition holding :: "element list \<Rightarrow> queue_service" where
  "holding xs = open_service\<lparr>redis_lists := (\<lambda>k. [])(''mastra:wazzup-queue:main'' := xs)\<rparr>"

definition failing_env :: worker_env where
  "failing_env =
     \<lparr>connect = (\<lambda>n. True), answers = (\<lambda>n. True), now = 1700000000000,
      api_token = Some ''token'', fetch = HttpNotOk\<rparr>"

text \<open>
  The same environment, except that the third command of the client rejects: in a turn that
  starts with no command sent yet, that is the \<^verbatim>\<open>LLEN\<close> of the first \<^verbatim>\<open>enqueue\<close>.
\<close>

definition flaky_env :: worker_env where
  "flaky_env = failing_env\<lparr>answers := (\<lambda>n. n \<noteq> 2)\<rparr>"

definition text_message :: "string \<Rightarrow> string \<Rightarrow> string \<Rightarrow> string \<Rightarrow> WazzupMessage" where
  "text_message mid chat status body =
     \<lparr>wm_messageId = Some mid, wm_chatId = Some chat, wm_channelId = Some ''channel-1'',
      wm_chatType = Some ''whatsapp'', wm_type = Some ''text'', wm_text = Some body,
      wm_contentUri = None, wm_status = Some status, wm_isEcho = None, wm_authorName = None\<rparr>"

text \<open>
  The text \<^verbatim>\<open>/STOP\<close> between a no-break space (U+00A0) and a line separator (U+2028).
\<close>

definition padded_stop :: string where
  "padded_stop = [CHR 0xC2, CHR 0xA0] @ ''/STOP'' @ [CHR 0xE2, CHR 0x80, CHR 0xA8]"

text \<open>
  A process without \<^verbatim>\<open>REDIS_URL\<close>, whose agent throws an \<^verbatim>\<open>AbortError\<close> on the message
  \<open>m1\<close> and answers every other message; and the same process with the URL set.
\<close>

definition no_url_env :: route_env where
  "no_url_env =
     \<lparr>connect = (\<lambda>n. True), answers = (\<lambda>n. True), now = 1700000000000,
      REDIS_URL = None, WAZZUP_API_TOKEN = Some ''token'', USE_WAZZUP_QUEUE = True,
      WAZZUP_TARGET_CHAT_IDS = None, createClient_accepts = (\<lambda>u. True),
      queue_backend = (\<lambda>k. []), stop_backend = (\<lambda>k. None),
      transcribeAudioFromUrl = (\<lambda>u. None), describeImageFromUrl = (\<lambda>u. None),
      agent_generate = (\<lambda>m t. if wm_messageId m = Some ''m1'' then AgentAbortError
                                else Replies [''ok'']),
      agent_memory = True, reply_fetch = HttpOk\<rparr>"

definition url_env :: route_env where
  "url_env = no_url_env\<lparr>REDIS_URL := Some ''redis://localhost:6379''\<rparr>"

definition erring_env :: route_env where
  "erring_env =
     no_url_env\<lparr>agent_generate := (\<lambda>m t. if wm_messageId m = Some ''m1'' then AgentError
                                          else Replies [''ok''])\<rparr>"

definition demo_payload :: WazzupOutboundPayload where
  "demo_payload =
     \<lparr>p_channelId = ''channel-1'', p_chatType = ''whatsapp'', p_chatId = ''77066318623'',
      p_text = ''ok'', p_refMessageId = None\<rparr>"

section \<open>Facts about the client and the queue operations\<close>

lemma ensureClient_reachable:
  "reachable env c \<Longrightarrow> ensureClient (connect env) c = (Inr (), opened c)"
  by (auto simp: ensureClient_def reachable_def opened_def client_connect_def)

lemma ensureClient_ready: "ready env c \<Longrightarrow> ensureClient (connect env) c = (Inr (), opened c)"
  by (simp add: ready_def ensureClient_reachable)

lemma ensureClient_open: "isOpen c \<Longrightarrow> ensureClient conn c = (Inr (), c)"
  by (simp add: ensureClient_def)

lemma ensureClient_rejected:
  "\<not> isOpen c \<Longrightarrow> connectPromise c = None \<Longrightarrow> \<not> conn (connects c) \<Longrightarrow>
   ensureClient conn c = (Inl ConnectError, c\<lparr>connectPromise := None, connects := Suc (connects c)\<rparr>)"
  by (simp add: ensureClient_def client_connect_def)

lemma isOpen_opened [simp]: "isOpen (opened c)"
  by (simp add: opened_def)

lemma opened_open [simp]: "isOpen c \<Longrightarrow> opened c = c"
  by (simp add: opened_def)

lemma commands_opened [simp]: "commands (opened c) = commands c"
  by (simp add: opened_def)

lemma ready_answers: "ready env c \<Longrightarrow> answers env n"
  by (simp add: ready_def answering_def)

lemma ready_open: "isOpen c \<Longrightarrow> answering env \<Longrightarrow> ready env c"
  by (simp add: ready_def reachable_def)

lemma ready_answering: "ready env c \<Longrightarrow> answering env"
  by (simp add: ready_def)

lemma opened_queue [simp]:
  fixes s :: queue_service
  shows "redis_lists (opened s) = redis_lists s" and "logs (opened s) = logs s"
    and "queuePrefix (opened s) = queuePrefix s" and "maxRetries (opened s) = maxRetries s"
  by (simp_all add: opened_def)

lemma keys_differ: "getQueueKey s \<noteq> getDeadLetterKey s"
  by (simp add: getQueueKey_def getDeadLetterKey_def)

lemma enqueue_ready:
  assumes "ready env s"
  shows "enqueue env m s =
     (Inr (), (opened s)\<lparr>redis_lists := (redis_lists s)(getQueueKey s :=
                              redis_lists s (getQueueKey s) @ [Serialized (payload_of (now env) m)]),
                          logs := logs s @ [(Debug, ''enqueue: added'')],
                          commands := Suc (Suc (commands s))\<rparr>)"
  using assms ready_answers [OF assms]
  by (simp add: enqueue_def ensureClient_ready bindE_def rPush_def lLen_def
       getQueueKey_def JSON_stringify_def log_def payload_of_def Let_def)

lemma dequeue_reachable:
  assumes "reachable env s" and "answers env (commands s)"
  shows "dequeue env s =
     (case redis_lists s (getQueueKey s) of
        [] \<Rightarrow> (Inr None, (opened s)\<lparr>commands := Suc (commands s)\<rparr>)
      | Serialized m # rest \<Rightarrow>
          (Inr (Some m), (opened s)\<lparr>redis_lists := (redis_lists s)(getQueueKey s := rest),
                                     commands := Suc (commands s)\<rparr>)
      | Unparseable t # rest \<Rightarrow>
          (Inr None, (opened s)\<lparr>redis_lists := (redis_lists s)(getQueueKey s := rest),
                                 logs := logs s @ [(Error, ''dequeue: parse failed'')],
                                 commands := Suc (commands s)\<rparr>))"
  using assms
  by (simp add: dequeue_def ensureClient_reachable bindE_def blPop_def
       getQueueKey_def JSON_parse_def log_def split: list.splits element.splits)

lemma dequeue_ready:
  assumes "ready env s"
  shows "dequeue env s =
     (case redis_lists s (getQueueKey s) of
        [] \<Rightarrow> (Inr None, (opened s)\<lparr>commands := Suc (commands s)\<rparr>)
      | Serialized m # rest \<Rightarrow>
          (Inr (Some m), (opened s)\<lparr>redis_lists := (redis_lists s)(getQueueKey s := rest),
                                     commands := Suc (commands s)\<rparr>)
      | Unparseable t # rest \<Rightarrow>
          (Inr None, (opened s)\<lparr>redis_lists := (redis_lists s)(getQueueKey s := rest),
                                 logs := logs s @ [(Error, ''dequeue: parse failed'')],
                                 commands := Suc (commands s)\<rparr>))"
  using assms by (simp add: ready_def answering_def dequeue_reachable)

lemma retryMessage_ready:
  assumes "ready env s"
  shows "retryMessage env m s =
     (if (case attempt m of None \<Rightarrow> 0 | Some a \<Rightarrow> a) \<ge> maxRetries s
      then (Inr False,
            (opened s)\<lparr>redis_lists := (redis_lists s)(getDeadLetterKey s :=
                            redis_lists s (getDeadLetterKey s) @ [Serialized m]),
                        logs := logs s @ [(Warn, ''retry: attempts exhausted'')],
                        commands := Suc (commands s)\<rparr>)
      else (Inr True,
            (opened s)\<lparr>redis_lists := (redis_lists s)(getQueueKey s :=
                            redis_lists s (getQueueKey s) @ [Serialized (payload_of (now env) m)]),
                        logs := logs s @ [(Debug, ''enqueue: added''), (Debug, ''retry: requeued'')],
                        commands := Suc (Suc (commands s))\<rparr>))"
proof -
  have r: "ready env (opened s)"
    using assms by (simp add: ready_def reachable_def)
  have p: "payload_of (now env) (m\<lparr>attempt := Some (case attempt m of None \<Rightarrow> 0 | Some a \<Rightarrow> a)\<rparr>)
             = payload_of (now env) m"
    by (simp add: payload_of_def split: option.splits)
  show ?thesis
    using assms ready_answers [OF assms]
    by (simp add: retryMessage_def ensureClient_ready bindE_def enqueue_ready [OF r] p
        rPush_def JSON_stringify_def log_def getDeadLetterKey_def getQueueKey_def)
qed

lemma demo_keys:
  "getQueueKey (holding xs) = ''mastra:wazzup-queue:main''"
  "getDeadLetterKey (holding xs) = ''mastra:wazzup-queue:dead-letters''"
  "getQueueKey open_service = ''mastra:wazzup-queue:main''"
  "getDeadLetterKey open_service = ''mastra:wazzup-queue:dead-letters''"
  by (simp_all add: getQueueKey_def getDeadLetterKey_def holding_def open_service_def)

lemma demo_ready:
  "ready demo_env (holding xs)" "ready demo_env open_service"
  "ready failing_env (holding xs)" "answering demo_env" "answering failing_env"
  "reachable demo_env (holding xs)" "reachable demo_env open_service"
  by (simp_all add: ready_def reachable_def answering_def holding_def open_service_def
       demo_env_def failing_env_def)

lemma retryMessage_lists:
  assumes "ready env s"
  shows "(maxRetries s \<le> (case attempt m of None \<Rightarrow> 0 | Some a \<Rightarrow> a) \<longrightarrow>
            fst (retryMessage env m s) = Inr False
          \<and> redis_lists (snd (retryMessage env m s)) (getDeadLetterKey s)
              = redis_lists s (getDeadLetterKey s) @ [Serialized m]
          \<and> redis_lists (snd (retryMessage env m s)) (getQueueKey s)
              = redis_lists s (getQueueKey s))
       \<and> ((case attempt m of None \<Rightarrow> 0 | Some a \<Rightarrow> a) < maxRetries s \<longrightarrow>
            fst (retryMessage env m s) = Inr True
          \<and> redis_lists (snd (retryMessage env m s)) (getQueueKey s)
              = redis_lists s (getQueueKey s)
                @ [Serialized (m\<lparr>attempt := Some ((case attempt m of None \<Rightarrow> 0 | Some a \<Rightarrow> a) + 1),
                                  timestamp := Some (case timestamp m of None \<Rightarrow> now env
                                                     | Some t \<Rightarrow> t)\<rparr>)]
          \<and> redis_lists (snd (retryMessage env m s)) (getDeadLetterKey s)
              = redis_lists s (getDeadLetterKey s))"
  using keys_differ [of s]
  by (auto simp: retryMessage_ready [OF assms] payload_of_def)

lemma enqueue_dequeue_fifo:
  assumes "ready env s" and "answering env'"
  shows "fst (enqueue env m s) = Inr ()
       \<and> (redis_lists s (getQueueKey s) = [] \<longrightarrow>
            fst (dequeue env' (snd (enqueue env m s)))
              = Inr (Some (m\<lparr>attempt := Some ((case attempt m of None \<Rightarrow> 0 | Some a \<Rightarrow> a) + 1),
                               timestamp := Some (case timestamp m of None \<Rightarrow> now env | Some t \<Rightarrow> t)\<rparr>))
          \<and> redis_lists (snd (dequeue env' (snd (enqueue env m s)))) (getQueueKey s) = [])
       \<and> (redis_lists s (getQueueKey s) = Serialized m0 # rest \<longrightarrow>
            fst (dequeue env' (snd (enqueue env m s))) = Inr (Some m0)
          \<and> redis_lists (snd (dequeue env' (snd (enqueue env m s)))) (getQueueKey s)
              = rest @ [Serialized (m\<lparr>attempt := Some ((case attempt m of None \<Rightarrow> 0 | Some a \<Rightarrow> a) + 1),
                               timestamp := Some (case timestamp m of None \<Rightarrow> now env | Some t \<Rightarrow> t)\<rparr>)])"
proof -
  let ?s1 = "snd (enqueue env m s)"
  have r': "ready env' ?s1"
    using assms(2) by (simp add: enqueue_ready [OF assms(1)] ready_def reachable_def)
  have k: "getQueueKey ?s1 = getQueueKey s"
    by (simp add: enqueue_ready [OF assms(1)] getQueueKey_def)
  have l: "redis_lists ?s1 (getQueueKey s)
        = redis_lists s (getQueueKey s) @ [Serialized (payload_of (now env) m)]"
    by (simp add: enqueue_ready [OF assms(1)])
  show ?thesis
    by (simp add: dequeue_ready [OF r'] k l) (simp add: enqueue_ready [OF assms(1)] payload_of_def)
qed

section \<open>Facts about the worker\<close>

lemma sendToWazzup_result:
  "fst (sendToWazzup env m s) = (\<not> send_fails env)"
  "\<exists>ls. snd (sendToWazzup env m s) = s\<lparr>logs := logs s @ ls\<rparr>"
proof -
  show "fst (sendToWazzup env m s) = (\<not> send_fails env)"
    by (auto simp: sendToWazzup_def send_fails_def split: fetch_result.splits)
  have "snd (sendToWazzup env m s) = s\<lparr>logs := logs s @ []\<rparr>
        \<or> (\<exists>l. snd (sendToWazzup env m s) = s\<lparr>logs := logs s @ [l]\<rparr>)"
    by (auto simp: sendToWazzup_def log_def split: fetch_result.splits)
  then show "\<exists>ls. snd (sendToWazzup env m s) = s\<lparr>logs := logs s @ ls\<rparr>"
    by blast
qed

lemma processMessage_open:
  assumes op: "isOpen s" and an: "answering env"
  shows "\<exists>s'. processMessage env m s = (Inr (), s') \<and> isOpen s'
           \<and> queuePrefix s' = queuePrefix s \<and> maxRetries s' = maxRetries s
           \<and> redis_lists s' =
               (if \<not> send_fails env then redis_lists s
                else if maxRetries s \<le> (case attempt m of None \<Rightarrow> 0 | Some a \<Rightarrow> a)
                then (redis_lists s)(getDeadLetterKey s :=
                       redis_lists s (getDeadLetterKey s) @ [Serialized m])
                else (redis_lists s)(getQueueKey s :=
                       redis_lists s (getQueueKey s) @ [Serialized (payload_of (now env) m)]))"
proof -
  let ?s0 = "log Info ''worker: processing'' s"
  obtain ls where ls: "snd (sendToWazzup env m ?s0) = ?s0\<lparr>logs := logs ?s0 @ ls\<rparr>"
    using sendToWazzup_result(2) [of env m ?s0] by blast
  let ?s1 = "?s0\<lparr>logs := logs ?s0 @ ls\<rparr>"
  have send: "sendToWazzup env m ?s0 = (\<not> send_fails env, ?s1)"
    using sendToWazzup_result(1) [of env m ?s0] ls by (cases "sendToWazzup env m ?s0") simp
  have o1: "isOpen ?s1"
    using op by (simp add: log_def)
  have r1: "ready env ?s1"
    using o1 an by (rule ready_open)
  have k: "getQueueKey ?s1 = getQueueKey s" "getDeadLetterKey ?s1 = getDeadLetterKey s"
    by (simp_all add: getQueueKey_def getDeadLetterKey_def log_def)
  have f: "redis_lists ?s1 = redis_lists s" "maxRetries ?s1 = maxRetries s"
    "queuePrefix ?s1 = queuePrefix s"
    by (simp_all add: log_def)
  note rm = retryMessage_ready [OF r1, of m, unfolded k f opened_open [OF o1]]
  show ?thesis
  proof (cases "send_fails env")
    case False
    then show ?thesis
      using op by (simp add: processMessage_def send) (simp add: log_def)
  next
    case True
    show ?thesis
    proof (cases "maxRetries s \<le> (case attempt m of None \<Rightarrow> 0 | Some a \<Rightarrow> a)")
      case a: True
      show ?thesis
        using True a op by (simp add: processMessage_def send rm) (simp add: log_def)
    next
      case a: False
      show ?thesis
        using True a op by (simp add: processMessage_def send rm) (simp add: log_def)
    qed
  qed
qed

lemma turn_ready:
  assumes r: "ready env s"
  shows "isOpen (processQueue_turn env s)"
    and "queuePrefix (processQueue_turn env s) = queuePrefix s"
    and "maxRetries (processQueue_turn env s) = maxRetries s"
    and "redis_lists (processQueue_turn env s) =
          (case redis_lists s (getQueueKey s) of
             [] \<Rightarrow> redis_lists s
           | Unparseable t # rest \<Rightarrow> (redis_lists s)(getQueueKey s := rest)
           | Serialized m # rest \<Rightarrow>
               if \<not> send_fails env then (redis_lists s)(getQueueKey s := rest)
               else if maxRetries s \<le> (case attempt m of None \<Rightarrow> 0 | Some a \<Rightarrow> a)
               then (redis_lists s)(getQueueKey s := rest,
                      getDeadLetterKey s := redis_lists s (getDeadLetterKey s) @ [Serialized m])
               else (redis_lists s)(getQueueKey s := rest @ [Serialized (payload_of (now env) m)]))"
proof -
  let ?P = "\<lambda>s'. isOpen s' \<and> queuePrefix s' = queuePrefix s \<and> maxRetries s' = maxRetries s
     \<and> redis_lists s' =
          (case redis_lists s (getQueueKey s) of
             [] \<Rightarrow> redis_lists s
           | Unparseable t # rest \<Rightarrow> (redis_lists s)(getQueueKey s := rest)
           | Serialized m # rest \<Rightarrow>
               if \<not> send_fails env then (redis_lists s)(getQueueKey s := rest)
               else if maxRetries s \<le> (case attempt m of None \<Rightarrow> 0 | Some a \<Rightarrow> a)
               then (redis_lists s)(getQueueKey s := rest,
                      getDeadLetterKey s := redis_lists s (getDeadLetterKey s) @ [Serialized m])
               else (redis_lists s)(getQueueKey s := rest @ [Serialized (payload_of (now env) m)]))"
  have "?P (processQueue_turn env s)"
  proof (cases "redis_lists s (getQueueKey s)")
    case Nil
    then show ?thesis
      by (simp add: processQueue_turn_def dequeue_ready [OF r] bindE_def)
  next
    case (Cons e rest)
    show ?thesis
    proof (cases e)
      case (Unparseable t)
      then show ?thesis
        using Cons by (simp add: processQueue_turn_def dequeue_ready [OF r] bindE_def)
    next
      case (Serialized m)
      let ?s1 = "(opened s)\<lparr>redis_lists := (redis_lists s)(getQueueKey s := rest),
                            commands := Suc (commands s)\<rparr>"
      have d: "dequeue env s = (Inr (Some m), ?s1)"
        using Cons Serialized by (simp add: dequeue_ready [OF r])
      have o1: "isOpen ?s1"
        by simp
      have k: "getQueueKey ?s1 = getQueueKey s" "getDeadLetterKey ?s1 = getDeadLetterKey s"
        by (simp_all add: getQueueKey_def getDeadLetterKey_def)
      obtain s' where s': "processMessage env m ?s1 = (Inr (), s')" "isOpen s'"
        "queuePrefix s' = queuePrefix ?s1" "maxRetries s' = maxRetries ?s1"
        "redis_lists s' =
               (if \<not> send_fails env then redis_lists ?s1
                else if maxRetries ?s1 \<le> (case attempt m of None \<Rightarrow> 0 | Some a \<Rightarrow> a)
                then (redis_lists ?s1)(getDeadLetterKey ?s1 :=
                       redis_lists ?s1 (getDeadLetterKey ?s1) @ [Serialized m])
                else (redis_lists ?s1)(getQueueKey ?s1 :=
                       redis_lists ?s1 (getQueueKey ?s1) @ [Serialized (payload_of (now env) m)]))"
        using processMessage_open [OF o1 ready_answering [OF r], of m] by blast
      have t: "processQueue_turn env s = s'"
        by (simp add: processQueue_turn_def d bindE_def s'(1))
      show ?thesis
        using s'(2-5) keys_differ [of s] Cons Serialized
        by (simp add: t k fun_upd_twist)
    qed
  qed
  then show "isOpen (processQueue_turn env s)"
    and "queuePrefix (processQueue_turn env s) = queuePrefix s"
    and "maxRetries (processQueue_turn env s) = maxRetries s"
    and "redis_lists (processQueue_turn env s) =
          (case redis_lists s (getQueueKey s) of
             [] \<Rightarrow> redis_lists s
           | Unparseable t # rest \<Rightarrow> (redis_lists s)(getQueueKey s := rest)
           | Serialized m # rest \<Rightarrow>
               if \<not> send_fails env then (redis_lists s)(getQueueKey s := rest)
               else if maxRetries s \<le> (case attempt m of None \<Rightarrow> 0 | Some a \<Rightarrow> a)
               then (redis_lists s)(getQueueKey s := rest,
                      getDeadLetterKey s := redis_lists s (getDeadLetterKey s) @ [Serialized m])
               else (redis_lists s)(getQueueKey s := rest @ [Serialized (payload_of (now env) m)]))"
    by blast+
qed

lemma copy_of_simps [simp]:
  "copy_of m (Serialized r) = same_message r m"
  "copy_of m (Unparseable t) = False"
  by (simp_all add: copy_of_def JSON_parse_def)

lemma same_message_payload [simp]: "same_message (payload_of t r) m = same_message r m"
  by (simp add: same_message_def payload_of_def)

lemma same_message_attempt [simp]: "same_message (m\<lparr>attempt := x\<rparr>) m"
  by (simp add: same_message_def)

lemma payload_of_attempt:
  "timestamp m \<noteq> None \<Longrightarrow>
   payload_of t (m\<lparr>attempt := Some a\<rparr>) = m\<lparr>attempt := Some (a + 1)\<rparr>"
  by (auto simp: payload_of_def)

lemma turn_not_at_head:
  assumes r: "ready env s" and h: "\<not> at_head m s"
  shows "copies m (redis_lists (processQueue_turn env s) (getQueueKey s))
           = copies m (redis_lists s (getQueueKey s))"
    and "copies m (redis_lists (processQueue_turn env s) (getDeadLetterKey s))
           = copies m (redis_lists s (getDeadLetterKey s))"
  using h keys_differ [of s]
  by (auto simp: turn_ready(4) [OF r] at_head_def copies_def split: list.splits element.splits)

lemma turn_at_head:
  assumes r: "ready env s" and q: "redis_lists s (getQueueKey s) = Serialized x # rest"
    and f: "send_fails env"
  shows "maxRetries s \<le> (case attempt x of None \<Rightarrow> 0 | Some a \<Rightarrow> a) \<Longrightarrow>
           redis_lists (processQueue_turn env s) (getQueueKey s) = rest
         \<and> redis_lists (processQueue_turn env s) (getDeadLetterKey s)
             = redis_lists s (getDeadLetterKey s) @ [Serialized x]"
    and "(case attempt x of None \<Rightarrow> 0 | Some a \<Rightarrow> a) < maxRetries s \<Longrightarrow>
           redis_lists (processQueue_turn env s) (getQueueKey s)
             = rest @ [Serialized (payload_of (now env) x)]
         \<and> redis_lists (processQueue_turn env s) (getDeadLetterKey s)
             = redis_lists s (getDeadLetterKey s)"
  using q f keys_differ [of s]
  by (auto simp: turn_ready(4) [OF r])

lemma processQueue_turns:
  "isRunning w \<Longrightarrow>
   queueService (processQueue envs w) = foldl (\<lambda>s env. processQueue_turn env s) (queueService w) envs"
  by (induction envs arbitrary: w) simp_all

lemma ready_after_turn:
  assumes "\<forall>env \<in> set (e # es). ready env s"
  shows "\<forall>env \<in> set es. ready env (processQueue_turn e s)"
proof
  fix env assume "env \<in> set es"
  then have "answering env" using assms by (simp add: ready_def)
  moreover have "isOpen (processQueue_turn e s)"
    using assms by (simp add: turn_ready(1))
  ultimately show "ready env (processQueue_turn e s)"
    by (simp add: ready_open)
qed

lemma keys_after_turn:
  assumes "ready e s"
  shows "getQueueKey (processQueue_turn e s) = getQueueKey s"
    and "getDeadLetterKey (processQueue_turn e s) = getDeadLetterKey s"
  using turn_ready(2) [OF assms] by (simp_all add: getQueueKey_def getDeadLetterKey_def)

lemma dead_lettered_stays:
  assumes "\<forall>env \<in> set envs. ready env s"
    and "copies m (redis_lists s (getQueueKey s)) = []"
  shows "sends m envs s = []
       \<and> getQueueKey (foldl (\<lambda>s env. processQueue_turn env s) s envs) = getQueueKey s
       \<and> getDeadLetterKey (foldl (\<lambda>s env. processQueue_turn env s) s envs) = getDeadLetterKey s
       \<and> maxRetries (foldl (\<lambda>s env. processQueue_turn env s) s envs) = maxRetries s
       \<and> copies m (redis_lists (foldl (\<lambda>s env. processQueue_turn env s) s envs) (getQueueKey s)) = []
       \<and> copies m (redis_lists (foldl (\<lambda>s env. processQueue_turn env s) s envs) (getDeadLetterKey s))
           = copies m (redis_lists s (getDeadLetterKey s))"
  using assms
proof (induction envs arbitrary: s)
  case Nil
  then show ?case by simp
next
  case (Cons e es)
  have r: "ready e s" using Cons.prems(1) by simp
  have h: "\<not> at_head m s"
    using Cons.prems(2) by (auto simp: at_head_def copies_def split: list.splits)
  note k = keys_after_turn [OF r]
  note t = turn_not_at_head [OF r h]
  have c: "copies m (redis_lists (processQueue_turn e s) (getQueueKey (processQueue_turn e s))) = []"
    using t(1) Cons.prems(2) by (simp add: k)
  note ih = Cons.IH [OF ready_after_turn [OF Cons.prems(1)] c]
  show ?case
    using ih h t(2) by (simp add: k turn_ready(3) [OF r])
qed

lemma lifecycle:
  assumes ts: "timestamp m \<noteq> None"
    and "\<forall>env \<in> set envs. ready env s"
    and "1 \<le> a" and "a \<le> maxRetries s"
    and "copies m (redis_lists s (getQueueKey s)) = [Serialized (m\<lparr>attempt := Some a\<rparr>)]"
    and "copies m (redis_lists s (getDeadLetterKey s)) = []"
    and "\<forall>failed \<in> set (sends m envs s). failed"
  shows "a + int (length (sends m envs s)) \<le> maxRetries s + 1
       \<and> (a + int (length (sends m envs s)) \<le> maxRetries s \<longrightarrow>
            copies m (redis_lists (foldl (\<lambda>s env. processQueue_turn env s) s envs) (getQueueKey s))
              = [Serialized (m\<lparr>attempt := Some (a + int (length (sends m envs s)))\<rparr>)]
          \<and> copies m (redis_lists (foldl (\<lambda>s env. processQueue_turn env s) s envs) (getDeadLetterKey s))
              = [])
       \<and> (a + int (length (sends m envs s)) = maxRetries s + 1 \<longrightarrow>
            copies m (redis_lists (foldl (\<lambda>s env. processQueue_turn env s) s envs) (getQueueKey s))
              = []
          \<and> copies m (redis_lists (foldl (\<lambda>s env. processQueue_turn env s) s envs) (getDeadLetterKey s))
              = [Serialized (m\<lparr>attempt := Some (maxRetries s)\<rparr>)])"
  using assms(2-)
proof (induction envs arbitrary: s a)
  case Nil
  then show ?case by simp
next
  case (Cons e es)
  let ?s1 = "processQueue_turn e s"
  have r: "ready e s" using Cons.prems(1) by simp
  note k = keys_after_turn [OF r]
  note mx = turn_ready(3) [OF r]
  note r1 = ready_after_turn [OF Cons.prems(1)]
  show ?case
  proof (cases "at_head m s")
    case False
    note t = turn_not_at_head [OF r False]
    have sn: "sends m (e # es) s = sends m es ?s1" using False by simp
    have c1: "copies m (redis_lists ?s1 (getQueueKey ?s1)) = [Serialized (m\<lparr>attempt := Some a\<rparr>)]"
      and c2: "copies m (redis_lists ?s1 (getDeadLetterKey ?s1)) = []"
      using t Cons.prems(4,5) by (simp_all add: k)
    have f1: "\<forall>failed \<in> set (sends m es ?s1). failed"
      using Cons.prems(6) by auto
    have a1: "a \<le> maxRetries ?s1" using Cons.prems(3) by (simp add: mx)
    from Cons.IH [OF r1 Cons.prems(2) a1 c1 c2 f1]
    show ?thesis using False by (simp add: k mx)
  next
    case True
    then obtain x rest where q: "redis_lists s (getQueueKey s) = Serialized x # rest"
      and sx: "same_message x m"
      by (cases "redis_lists s (getQueueKey s)"; cases "hd (redis_lists s (getQueueKey s))")
         (auto simp: at_head_def)
    have x: "x = m\<lparr>attempt := Some a\<rparr>" and cr: "copies m rest = []"
      using Cons.prems(4) sx by (simp_all add: q copies_def)
    have sn: "sends m (e # es) s = send_fails e # sends m es ?s1" using True by simp
    have fe: "send_fails e" and f1: "\<forall>failed \<in> set (sends m es ?s1). failed"
      using Cons.prems(6) True by auto
    note th = turn_at_head [OF r q fe]
    show ?thesis
    proof (cases "a < maxRetries s")
      case lt: True
      then have "(case attempt x of None \<Rightarrow> 0 | Some a \<Rightarrow> a) < maxRetries s" by (simp add: x)
      from th(2) [OF this]
      have c1: "copies m (redis_lists ?s1 (getQueueKey ?s1)) = [Serialized (m\<lparr>attempt := Some (a + 1)\<rparr>)]"
        and c2: "copies m (redis_lists ?s1 (getDeadLetterKey ?s1)) = []"
        using cr Cons.prems(5) ts
        by (simp_all add: k copies_def x payload_of_attempt)
      have a1: "1 \<le> a + 1" "a + 1 \<le> maxRetries ?s1"
        using Cons.prems(2) lt by (simp_all add: mx)
      from Cons.IH [OF r1 a1 c1 c2 f1]
      show ?thesis using True by (simp add: k mx add.assoc add.commute add.left_commute)
    next
      case ge: False
      then have am: "a = maxRetries s" using Cons.prems(3) by simp
      then have "maxRetries s \<le> (case attempt x of None \<Rightarrow> 0 | Some a \<Rightarrow> a)" by (simp add: x)
      from th(1) [OF this]
      have c1: "copies m (redis_lists ?s1 (getQueueKey ?s1)) = []"
        and c2: "copies m (redis_lists ?s1 (getDeadLetterKey ?s1)) = [Serialized (m\<lparr>attempt := Some (maxRetries s)\<rparr>)]"
        using cr Cons.prems(5)
        by (simp_all add: k copies_def x am)
      from dead_lettered_stays [OF r1 c1]
      show ?thesis using c1 c2 True by (simp add: k mx am)
    qed
  qed
qed

lemma keys_after_turns:
  assumes "\<forall>env \<in> set envs. ready env s"
  shows "getQueueKey (foldl (\<lambda>s env. processQueue_turn env s) s envs) = getQueueKey s
       \<and> getDeadLetterKey (foldl (\<lambda>s env. processQueue_turn env s) s envs) = getDeadLetterKey s
       \<and> maxRetries (foldl (\<lambda>s env. processQueue_turn env s) s envs) = maxRetries s
       \<and> (envs \<noteq> [] \<longrightarrow> isOpen (foldl (\<lambda>s env. processQueue_turn env s) s envs))"
  using assms
proof (induction envs arbitrary: s)
  case Nil
  then show ?case by simp
next
  case (Cons e es)
  have r: "ready e s" using Cons.prems by simp
  from Cons.IH [OF ready_after_turn [OF Cons.prems]]
  show ?case
    using turn_ready(1) [OF r]
    by (cases es) (simp_all add: keys_after_turn [OF r] turn_ready(3) [OF r])
qed

lemma dequeue_at_head:
  assumes r: "ready env s" and h: "at_head m s" and c: "main_copies m s = [Serialized x]"
  shows "fst (dequeue env s) = Inr (Some x)"
    and "main_copies m (snd (dequeue env s)) = []"
    and "dead_copies m (snd (dequeue env s)) = dead_copies m s"
proof -
  obtain e rest where q: "redis_lists s (getQueueKey s) = e # rest" and ce: "copy_of m e"
    using h by (cases "redis_lists s (getQueueKey s)") (auto simp: at_head_def)
  have e: "e = Serialized x" and cr: "copies m rest = []"
    using c ce by (simp_all add: main_copies_def q copies_def)
  have d: "dequeue env s =
      (Inr (Some x), (opened s)\<lparr>redis_lists := (redis_lists s)(getQueueKey s := rest),
                                commands := Suc (commands s)\<rparr>)"
    by (simp add: dequeue_ready [OF r] q e)
  show "fst (dequeue env s) = Inr (Some x)" by (simp add: d)
  show "main_copies m (snd (dequeue env s)) = []"
    using cr by (simp add: d main_copies_def getQueueKey_def)
  show "dead_copies m (snd (dequeue env s)) = dead_copies m s"
    using keys_differ [of s]
    by (simp add: d dead_copies_def getDeadLetterKey_def getQueueKey_def)
qed

lemma worker_lifecycle:
  assumes run: "isRunning w"
    and rd: "\<forall>env \<in> set envs. ready env (queueService w)"
    and pos: "1 \<le> maxRetries (queueService w)"
    and a: "attempt m = Some 1" and ts: "timestamp m \<noteq> None"
    and once: "main_copies m (queueService w) = [Serialized m]"
    and none: "dead_copies m (queueService w) = []"
    and fails: "\<forall>failed \<in> set (sends m envs (queueService w)). failed"
  shows "int (length (sends m envs (queueService w))) \<le> maxRetries (queueService w)"
    and "int (length (sends m envs (queueService w))) < maxRetries (queueService w) \<Longrightarrow>
           main_copies m (queueService (processQueue envs w))
             = [Serialized (m\<lparr>attempt := Some (1 + int (length (sends m envs (queueService w))))\<rparr>)]
         \<and> dead_copies m (queueService (processQueue envs w)) = []"
    and "int (length (sends m envs (queueService w))) = maxRetries (queueService w) \<Longrightarrow>
           main_copies m (queueService (processQueue envs w)) = []
         \<and> dead_copies m (queueService (processQueue envs w))
             = [Serialized (m\<lparr>attempt := Some (maxRetries (queueService w))\<rparr>)]"
proof -
  let ?s = "queueService w"
  have m1: "m\<lparr>attempt := Some 1\<rparr> = m" using a by simp
  have c1: "copies m (redis_lists ?s (getQueueKey ?s)) = [Serialized (m\<lparr>attempt := Some 1\<rparr>)]"
    using once by (simp add: main_copies_def m1)
  have c2: "copies m (redis_lists ?s (getDeadLetterKey ?s)) = []"
    using none by (simp add: dead_copies_def)
  have one: "(1::int) \<le> 1" by simp
  note l = lifecycle [OF ts rd one pos c1 c2 fails]
  note k = keys_after_turns [OF rd]
  note p = processQueue_turns [OF run, of envs]
  show "int (length (sends m envs ?s)) \<le> maxRetries ?s"
    using l by simp
  show "int (length (sends m envs ?s)) < maxRetries ?s \<Longrightarrow>
           main_copies m (queueService (processQueue envs w))
             = [Serialized (m\<lparr>attempt := Some (1 + int (length (sends m envs ?s)))\<rparr>)]
         \<and> dead_copies m (queueService (processQueue envs w)) = []"
    using l k by (simp add: p main_copies_def dead_copies_def)
  show "int (length (sends m envs ?s)) = maxRetries ?s \<Longrightarrow>
           main_copies m (queueService (processQueue envs w)) = []
         \<and> dead_copies m (queueService (processQueue envs w))
             = [Serialized (m\<lparr>attempt := Some (maxRetries ?s)\<rparr>)]"
    using l k by (simp add: p main_copies_def dead_copies_def)
qed

section \<open>Facts about the route\<close>

lemma strip_one_None: "strip_one ps s = None \<longleftrightarrow> (\<forall>p \<in> set ps. p \<noteq> [] \<longrightarrow> \<not> prefix p s)"
proof -
  have "strip_one ps s = None \<longleftrightarrow> find (\<lambda>p. p \<noteq> [] \<and> prefix p s) ps = None"
    by (simp add: strip_one_def split: option.splits)
  also have "\<dots> \<longleftrightarrow> (\<forall>p \<in> set ps. p \<noteq> [] \<longrightarrow> \<not> prefix p s)"
    by (auto simp: find_None_iff)
  finally show ?thesis .
qed

lemma strip_one_suffix: "strip_one ps s = Some rest \<Longrightarrow> suffix rest s"
  by (auto simp: strip_one_def suffix_drop split: option.splits)

lemma strip_all_fix: "strip_one ps (strip_all ps s) = None"
proof (induction ps s rule: strip_all.induct)
  case (1 ps s)
  then show ?case
    by (cases "strip_one ps s") (simp_all add: strip_all.simps [of ps s])
qed

lemma strip_all_id: "strip_one ps s = None \<Longrightarrow> strip_all ps s = s"
  by (simp add: strip_all.simps [of ps s])

lemma strip_all_suffix: "suffix (strip_all ps s) s"
proof (induction ps s rule: strip_all.induct)
  case (1 ps s)
  show ?case
  proof (cases "strip_one ps s")
    case None
    then show ?thesis by (simp add: strip_all_id)
  next
    case (Some rest)
    then have "suffix (strip_all ps rest) rest" using 1 by simp
    moreover have "suffix rest s" using Some by (rule strip_one_suffix)
    ultimately show ?thesis
      using Some suffix_order.trans [of "strip_all ps rest" rest s]
      by (simp add: strip_all.simps [of ps s])
  qed
qed

lemma trim_trim: "trim (trim s) = trim s"
proof -
  define u where "u = strip_all white_space s"
  define v where "v = strip_all (map rev white_space) (rev u)"
  have tw: "trim s = rev v" by (simp add: trim_def u_def v_def)
  have "suffix v (rev u)" unfolding v_def by (rule strip_all_suffix)
  then have p: "prefix (rev v) u" by (simp add: suffix_to_prefix)
  have "strip_one white_space u = None" unfolding u_def by (rule strip_all_fix)
  then have 1: "strip_one white_space (rev v) = None"
    using p unfolding strip_one_None by (meson prefix_order.trans)
  have 2: "strip_one (map rev white_space) v = None" unfolding v_def by (rule strip_all_fix)
  show ?thesis
    by (simp add: tw) (simp add: trim_def strip_all_id 1 2)
qed

lemma resolveOutbound_command:
  assumes "wm_text m = Some t" "toLowerCase (trim t) = w" "w \<noteq> []"
  shows "resolveOutboundMessageText m = Some (Plain (trim t))"
  using assms by (auto simp: resolveOutboundMessageText_def Let_def)

lemma persist_one_command:
  assumes svc: "redisStopFlagService st = Some svc"
    and chat: "wm_chatId m = Some c"
    and w: "w = ''/stop'' \<or> w = ''/start''"
    and cmd: "operator_command m w"
  shows "persist_one env m (records, st) =
     (records,
      rlog (if isl (fst (store_call env w c svc)) then Error else Info)
           (if w = ''/stop''
            then (if isl (fst (store_call env w c svc)) then ''stop flag not set'' else ''stop flag set'')
            else (if isl (fst (store_call env w c svc)) then ''stop flag not cleared'' else ''stop flag cleared''))
           (st\<lparr>redisStopFlagService := Some (snd (store_call env w c svc))\<rparr>))"
proof -
  obtain t where t: "wm_text m = Some t" "toLowerCase (trim t) = w"
    using cmd by (auto simp: operator_command_def split: option.splits)
  have ne: "w \<noteq> []" using w by auto
  have r: "resolveOutboundMessageText m = Some (Plain (trim t))"
    using resolveOutbound_command [OF t ne] .
  have src: "\<not> (wm_isEcho m = Some True \<and> \<not> truthy (wm_authorName m))"
    using cmd by (simp add: operator_command_def)
  show ?thesis
  proof (cases "w = ''/stop''")
    case True
    then show ?thesis
      using src t(2)
      by (cases "setStop env c ''stop'' svc"; cases "fst (setStop env c ''stop'' svc)")
         (simp_all add: persist_one_def r svc chat trim_trim store_call_def Let_def)
  next
    case False
    then have s: "w = ''/start''" using w by simp
    show ?thesis
      using src t(2) s
      by (cases "clearStop env c svc"; cases "fst (clearStop env c svc)")
         (simp_all add: persist_one_def r svc chat trim_trim store_call_def Let_def)
  qed
qed

lemma store_call_ready:
  assumes "ready env svc" "w = ''/stop'' \<or> w = ''/start''"
  shows "fst (store_call env w c svc) = Inr ()"
    and "strings (snd (store_call env w c svc)) (buildKey svc c) = (if w = ''/stop'' then Some ''stop'' else None)"
  using assms ready_answers [OF assms(1)]
  by (auto simp: store_call_def setStop_def clearStop_def ensureClient_ready bindE_def client_set_def
       client_del_def buildKey_def opened_def)

lemma eligible_outbound:
  assumes "wm_status m = Some ''sent''" "wm_chatId m = Some c" "c \<noteq> []" "c \<in> set A"
  shows "outboundMessages (m # rest) A = m # outboundMessages rest A"
  using assms by (simp add: outboundMessages_def shouldPersistOutboundMessage_def truthy_def)

lemma init_no_url:
  "\<not> truthy (REDIS_URL env) \<Longrightarrow>
   route_module_init env =
     \<lparr>redisStopFlagService = None, messageQueueService = None, direct_sends = [],
      agent_calls = [], memory_saved = [],
      route_logs = [(Warn, ''RedisStopFlagService init failed, stop commands disabled'')]\<rparr>"
  by (simp add: route_module_init_def RedisStopFlagService_new_def rlog_def split: option.splits)

lemma init_url:
  "truthy (REDIS_URL env) \<Longrightarrow> createClient_accepts env (the (REDIS_URL env)) \<Longrightarrow>
   route_module_init env =
     \<lparr>redisStopFlagService =
        Some \<lparr>isOpen = False, connectPromise = None, connects = 0, commands = 0,
              keyPrefix = replace_ws ''mastra:input-stop'', strings = stop_backend env\<rparr>,
      messageQueueService = None, direct_sends = [],
      agent_calls = [], memory_saved = [], route_logs = []\<rparr>"
  by (simp add: route_module_init_def RedisStopFlagService_new_def rlog_def Let_def split: option.splits)

lemma no_url_env_facts:
  "\<not> truthy (REDIS_URL no_url_env)" "agent_memory no_url_env" "truthy (REDIS_URL url_env)"
  "agent_memory url_env" "connect url_env = (\<lambda>n. True)" "answering url_env"
  "createClient_accepts url_env (the (REDIS_URL url_env))"
  by (simp_all add: no_url_env_def url_env_def truthy_def answering_def)

lemma constructors_throw:
  "\<not> truthy (case opt_url of None \<Rightarrow> env_url | Some u \<Rightarrow> Some u) \<Longrightarrow>
     RedisStopFlagService_new acc env_url sb opt_url opt_prefix
       = Inl (ConfigurationError ''RedisStopFlagService'')"
  "\<not> truthy (case opt_redisUrl opts of None \<Rightarrow> env_url | Some u \<Rightarrow> Some u) \<Longrightarrow>
     WazzupMessageQueueService_new acc env_url qb opts
       = Inl (ConfigurationError ''WazzupMessageQueueService'')"
  by (simp_all add: RedisStopFlagService_new_def WazzupMessageQueueService_new_def)

lemma sendReply_without_url:
  assumes "\<not> truthy (REDIS_URL env)" "USE_WAZZUP_QUEUE env" "messageQueueService st = None"
  shows "sendReplyToWazzup env payload st
           = sendReplyViaHttp env payload (rlog Error ''reply: enqueue failed'' st)"
  using assms
  by (simp add: sendReplyToWazzup_def constructors_throw(2) no_options_def)

lemma outboundMessages_filter:
  "outboundMessages messages A = filter (persist_candidate A) messages"
  unfolding outboundMessages_def
  by (rule filter_cong)
     (auto simp: shouldPersistOutboundMessage_def persist_candidate_def truthy_def split: option.splits)

lemma text_examples:
  "trim '' /Stop '' = ''/Stop''" "trim ''/Stop'' = ''/Stop''" "toLowerCase ''/Stop'' = ''/stop''"
  "trim padded_stop = ''/STOP''" "trim ''/STOP'' = ''/STOP''" "toLowerCase ''/STOP'' = ''/stop''"
  "replace_ws ''mastra:input-stop'' = ''mastra:input-stop''"
  "trim ''hello'' = ''hello''" "trim ''are you there'' = ''are you there''"
  by code_simp+

section \<open>Claim C1: \<^verbatim>\<open>retryMessage\<close>\<close>

text \<open>
  Claim C1 says that a requeued message keeps its timestamp, for every message.  A message
  that carries no timestamp (the field is optional) is requeued with the time of the
  enqueue as its timestamp: here a message with attempt 1 and no timestamp, retried at time
  1700000000000 with three retries allowed.
\<close>

theorem retryMessage_timestamp_counterexample:
  "ready demo_env open_service
   \<and> fst (retryMessage demo_env (demo_message\<lparr>attempt := Some 1\<rparr>) open_service) = Inr True
   \<and> redis_lists (snd (retryMessage demo_env (demo_message\<lparr>attempt := Some 1\<rparr>) open_service))
        (getQueueKey open_service)
       = [Serialized (demo_message\<lparr>attempt := Some 2, timestamp := Some 1700000000000\<rparr>)]
   \<and> timestamp (demo_message\<lparr>attempt := Some 1\<rparr>) = None"
proof -
  have r: "ready demo_env open_service"
    by (rule demo_ready)
  have f: "maxRetries open_service = 3" "redis_lists open_service (getQueueKey open_service) = []"
    "now demo_env = 1700000000000" "timestamp demo_message = None"
    by (simp_all add: open_service_def demo_env_def demo_message_def)
  show ?thesis
    using r f retryMessage_lists [OF r, of "demo_message\<lparr>attempt := Some 1\<rparr>"]
    by simp
qed

text \<open>
  Claim C1, amended.  With the backend reachable and every command answered, and \<open>a\<close> the
  attempt of the message (0 when absent): if \<open>a \<ge> maxRetries\<close>, \<^verbatim>\<open>retryMessage\<close> appends the
  message, every field as it is, to the dead-letters list, leaves the main list alone and
  returns false; otherwise it appends to the main list the message with attempt \<open>a + 1\<close>,
  with its timestamp when it has one and the enqueue time when it has none, and with every
  other field as it is, leaves the dead-letters list alone and returns true.  Whenever the
  constructor returns a service, its \<open>maxRetries\<close> is the option given and 3 without the
  option; with no options, the constructor returns a service for every non-empty URL that
  the client library takes.
\<close>

theorem retryMessage_dead_letters_or_requeues:
  assumes "ready env s"
  shows "(maxRetries s \<le> (case attempt m of None \<Rightarrow> 0 | Some a \<Rightarrow> a) \<longrightarrow>
            fst (retryMessage env m s) = Inr False
          \<and> redis_lists (snd (retryMessage env m s)) (getDeadLetterKey s)
              = redis_lists s (getDeadLetterKey s) @ [Serialized m]
          \<and> redis_lists (snd (retryMessage env m s)) (getQueueKey s)
              = redis_lists s (getQueueKey s))
       \<and> ((case attempt m of None \<Rightarrow> 0 | Some a \<Rightarrow> a) < maxRetries s \<longrightarrow>
            fst (retryMessage env m s) = Inr True
          \<and> redis_lists (snd (retryMessage env m s)) (getQueueKey s)
              = redis_lists s (getQueueKey s)
                @ [Serialized (m\<lparr>attempt := Some ((case attempt m of None \<Rightarrow> 0 | Some a \<Rightarrow> a) + 1),
                                  timestamp := Some (case timestamp m of None \<Rightarrow> now env
                                                     | Some t \<Rightarrow> t)\<rparr>)]
          \<and> redis_lists (snd (retryMessage env m s)) (getDeadLetterKey s)
              = redis_lists s (getDeadLetterKey s))
       \<and> (WazzupMessageQueueService_new acc env_url b opts = Inr s0 \<longrightarrow>
            maxRetries s0 = (case opt_maxRetries opts of None \<Rightarrow> 3 | Some n \<Rightarrow> n))
       \<and> (u \<noteq> [] \<and> acc u \<longrightarrow>
            (case WazzupMessageQueueService_new acc (Some u) b no_options of
               Inl e \<Rightarrow> False
             | Inr s1 \<Rightarrow> maxRetries s1 = 3))"
proof -
  have c: "WazzupMessageQueueService_new acc env_url b opts = Inr s0 \<longrightarrow>
            maxRetries s0 = (case opt_maxRetries opts of None \<Rightarrow> 3 | Some n \<Rightarrow> n)"
    by (auto simp: WazzupMessageQueueService_new_def Let_def split: if_splits)
  have d: "u \<noteq> [] \<and> acc u \<longrightarrow>
            (case WazzupMessageQueueService_new acc (Some u) b no_options of
               Inl e \<Rightarrow> False
             | Inr s1 \<Rightarrow> maxRetries s1 = 3)"
    by (simp add: WazzupMessageQueueService_new_def no_options_def truthy_def)
  show ?thesis
    using retryMessage_lists [OF assms, of m] c d by blast
qed

text \<open>
  Claim C1, the scenario: three calls with three retries allowed, on the message as the worker
  hands it over after each dequeue (the main list is empty then).  Attempt 1 is requeued
  with attempt 2, attempt 2 with attempt 3, and attempt 3 goes to the dead letters with
  result false.  The service of the scenario has the three retries of a service constructed
  without options.
\<close>

theorem retryMessage_three_calls_witness:
  "ready demo_env open_service
   \<and> maxRetries open_service = 3
   \<and> fst (retryMessage demo_env (older_message\<lparr>attempt := Some 1\<rparr>) open_service) = Inr True
   \<and> redis_lists (snd (retryMessage demo_env (older_message\<lparr>attempt := Some 1\<rparr>) open_service))
        ''mastra:wazzup-queue:main'' = [Serialized (older_message\<lparr>attempt := Some 2\<rparr>)]
   \<and> fst (retryMessage demo_env (older_message\<lparr>attempt := Some 2\<rparr>) open_service) = Inr True
   \<and> redis_lists (snd (retryMessage demo_env (older_message\<lparr>attempt := Some 2\<rparr>) open_service))
        ''mastra:wazzup-queue:main'' = [Serialized (older_message\<lparr>attempt := Some 3\<rparr>)]
   \<and> fst (retryMessage demo_env (older_message\<lparr>attempt := Some 3\<rparr>) open_service) = Inr False
   \<and> redis_lists (snd (retryMessage demo_env (older_message\<lparr>attempt := Some 3\<rparr>) open_service))
        ''mastra:wazzup-queue:dead-letters'' = [Serialized (older_message\<lparr>attempt := Some 3\<rparr>)]
   \<and> redis_lists (snd (retryMessage demo_env (older_message\<lparr>attempt := Some 3\<rparr>) open_service))
        ''mastra:wazzup-queue:main'' = []
   \<and> (case WazzupMessageQueueService_new (\<lambda>u. True) (Some ''redis://localhost:6379'') (\<lambda>k. [])
             no_options of
        Inl e \<Rightarrow> False
      | Inr s1 \<Rightarrow> maxRetries s1 = 3)"
proof -
  have r: "ready demo_env open_service"
    by (rule demo_ready)
  have f: "maxRetries open_service = 3" "redis_lists open_service = (\<lambda>k. [])"
    "timestamp older_message = Some 1699999999000"
    by (simp_all add: open_service_def older_message_def)
  show ?thesis
    using r
      retryMessage_dead_letters_or_requeues [OF r, of "older_message\<lparr>attempt := Some 1\<rparr>"
        "\<lambda>u. True" None "\<lambda>k. []" no_options open_service "''redis://localhost:6379''"]
      retryMessage_dead_letters_or_requeues [OF r, of "older_message\<lparr>attempt := Some 2\<rparr>"
        "\<lambda>u. True" None "\<lambda>k. []" no_options open_service "''redis://localhost:6379''"]
      retryMessage_dead_letters_or_requeues [OF r, of "older_message\<lparr>attempt := Some 3\<rparr>"
        "\<lambda>u. True" None "\<lambda>k. []" no_options open_service "''redis://localhost:6379''"]
    by (simp add: f demo_keys)
qed

section \<open>Claim C2: a message that keeps failing ends in the dead letters, once\<close>




section \<open>Claim C3: \<^verbatim>\<open>enqueue\<close> followed by \<^verbatim>\<open>dequeue\<close>\<close>




section \<open>Claim C4: the inbound filter\<close>

text \<open>
  Claim C4 has \<^verbatim>\<open>shouldHandleMessage\<close> answer false whenever the status is present and is
  not \<^verbatim>\<open>"inbound"\<close>.  The guard is \<^verbatim>\<open>message.status && message.status !== 'inbound'\<close>, and
  the empty string is falsy: a message whose status is the empty string, from an allowed
  chat, is handled.
\<close>

theorem shouldHandle_empty_status_counterexample:
  "wm_status (text_message ''m1'' ''77066318623'' '''' ''hello'') = Some ''''
   \<and> Some '''' \<noteq> Some ''inbound''
   \<and> shouldHandleMessage (text_message ''m1'' ''77066318623'' '''' ''hello'') [''77066318623'']"
  by (simp add: shouldHandleMessage_def text_message_def truthy_def)

text \<open>
  Claim C4, amended.  \<^verbatim>\<open>shouldHandleMessage\<close> answers true exactly when the message is not
  an echo, its status is absent, empty or \<^verbatim>\<open>"inbound"\<close>, its chat id is present, non-empty
  and a member of the allowlist, and the allowlist is not empty; it answers false in every
  other case.
\<close>

theorem shouldHandleMessage_iff:
  "shouldHandleMessage m A =
     (wm_isEcho m \<noteq> Some True
      \<and> (wm_status m = None \<or> wm_status m = Some [] \<or> wm_status m = Some ''inbound'')
      \<and> (case wm_chatId m of None \<Rightarrow> False | Some c \<Rightarrow> c \<noteq> [] \<and> c \<in> set A)
      \<and> A \<noteq> [])"
  by (auto simp: shouldHandleMessage_def truthy_def split: option.splits)

text \<open>Claim C4 at one message that is handled and at five that are not.\<close>

theorem shouldHandleMessage_witness:
  "shouldHandleMessage (text_message ''m1'' ''77066318623'' ''inbound'' ''hello'') [''77066318623'']
   \<and> \<not> shouldHandleMessage (text_message ''m1'' ''77066318623'' ''sent'' ''hello'') [''77066318623'']
   \<and> \<not> shouldHandleMessage (text_message ''m1'' ''70000000000'' ''inbound'' ''hello'') [''77066318623'']
   \<and> \<not> shouldHandleMessage (text_message ''m1'' [] ''inbound'' ''hello'') [''77066318623'']
   \<and> \<not> shouldHandleMessage (text_message ''m1'' ''77066318623'' ''inbound'' ''hello'') []
   \<and> \<not> shouldHandleMessage
          ((text_message ''m1'' ''77066318623'' ''inbound'' ''hello'')\<lparr>wm_isEcho := Some True\<rparr>)
          [''77066318623'']"
  using shouldHandleMessage_iff [of "text_message ''m1'' ''77066318623'' ''inbound'' ''hello''" "[''77066318623'']"]
    shouldHandleMessage_iff [of "text_message ''m1'' ''77066318623'' ''sent'' ''hello''" "[''77066318623'']"]
    shouldHandleMessage_iff [of "text_message ''m1'' ''70000000000'' ''inbound'' ''hello''" "[''77066318623'']"]
    shouldHandleMessage_iff [of "text_message ''m1'' [] ''inbound'' ''hello''" "[''77066318623'']"]
    shouldHandleMessage_iff [of "text_message ''m1'' ''77066318623'' ''inbound'' ''hello''" "[]"]
    shouldHandleMessage_iff [of "(text_message ''m1'' ''77066318623'' ''inbound'' ''hello'')\<lparr>wm_isEcho := Some True\<rparr>" "[''77066318623'']"]
  by (simp add: text_message_def)

section \<open>Claim C5: an agent timeout and the rest of the payload\<close>

text \<open>
  Claim C5 expects that an agent call ending in a timeout aborts that message only.  In
  \<^verbatim>\<open>processInboundMessages\<close> the \<^verbatim>\<open>catch\<close> block answers an \<^verbatim>\<open>AbortError\<close> with \<^verbatim>\<open>return\<close>,
  which leaves the function, while any other exception falls through to the next message.
  Two messages from an allowed chat: when the agent aborts on the first, the second is never
  handed to the agent, although the filter accepts it; when the agent fails otherwise on the
  first, the second is handed to the agent.
\<close>

theorem agent_abort_skips_remaining_messages:
  "map (wm_messageId \<circ> fst)
     (agent_calls (processInboundMessages no_url_env
        [text_message ''m1'' ''77066318623'' ''inbound'' ''hello'',
         text_message ''m2'' ''77066318623'' ''inbound'' ''are you there'']
        (route_module_init no_url_env)))
     = [Some ''m1'']
   \<and> map (wm_messageId \<circ> fst)
     (agent_calls (processInboundMessages erring_env
        [text_message ''m1'' ''77066318623'' ''inbound'' ''hello'',
         text_message ''m2'' ''77066318623'' ''inbound'' ''are you there'']
        (route_module_init no_url_env)))
     = [Some ''m1'', Some ''m2'']
   \<and> shouldHandleMessage (text_message ''m2'' ''77066318623'' ''inbound'' ''are you there'')
        (resolveTargetChatIds no_url_env)"
  unfolding init_no_url [OF no_url_env_facts(1)]
  by (simp add: processInboundMessages_def resolveTargetChatIds_def
      shouldHandleMessage_def truthy_def text_message_def resolveMessageText_def
      text_examples no_url_env_def erring_env_def rlog_def Let_def
      sendReplyToWazzup_def sendReplyViaHttp_def WazzupMessageQueueService_new_def no_options_def)

section \<open>Claim C6: the operator commands\<close>




section \<open>Claim C7: a missing connection URL\<close>

text \<open>
  Claim C7 has the error of a construction without URL caught nowhere.  Loading the route
  module constructs the stop-flag store inside \<^verbatim>\<open>try\<close>/\<^verbatim>\<open>catch\<close>: the constructor throws, the
  module logs a warning and loads, with stop commands disabled.  \<^verbatim>\<open>sendReplyToWazzup\<close>
  constructs the queue service inside \<^verbatim>\<open>try\<close>/\<^verbatim>\<open>catch\<close> as well: the constructor throws and
  the reply is sent directly.
\<close>

theorem missing_url_is_caught_counterexample:
  "REDIS_URL no_url_env = None
   \<and> RedisStopFlagService_new (createClient_accepts no_url_env) (REDIS_URL no_url_env)
        (stop_backend no_url_env) None None
       = Inl (ConfigurationError ''RedisStopFlagService'')
   \<and> route_module_init no_url_env =
       \<lparr>redisStopFlagService = None, messageQueueService = None, direct_sends = [],
        agent_calls = [], memory_saved = [],
        route_logs = [(Warn, ''RedisStopFlagService init failed, stop commands disabled'')]\<rparr>
   \<and> WazzupMessageQueueService_new (createClient_accepts no_url_env) (REDIS_URL no_url_env)
        (queue_backend no_url_env) no_options
       = Inl (ConfigurationError ''WazzupMessageQueueService'')
   \<and> sendReplyToWazzup no_url_env demo_payload (route_module_init no_url_env) =
       \<lparr>redisStopFlagService = None, messageQueueService = None, direct_sends = [demo_payload],
        agent_calls = [], memory_saved = [],
        route_logs = [(Warn, ''RedisStopFlagService init failed, stop commands disabled''),
                      (Error, ''reply: enqueue failed''), (Info, ''reply: sending''),
                      (Info, ''reply: sent'')]\<rparr>"
proof -
  have u: "REDIS_URL no_url_env = None" "USE_WAZZUP_QUEUE no_url_env"
    "truthy (WAZZUP_API_TOKEN no_url_env)" "reply_fetch no_url_env = HttpOk"
    by (simp_all add: no_url_env_def truthy_def)
  have n: "\<not> truthy (REDIS_URL no_url_env)" by (rule no_url_env_facts)
  have c1: "RedisStopFlagService_new (createClient_accepts no_url_env) (REDIS_URL no_url_env)
        (stop_backend no_url_env) None None
       = Inl (ConfigurationError ''RedisStopFlagService'')"
    using n by (simp add: constructors_throw)
  have c2: "WazzupMessageQueueService_new (createClient_accepts no_url_env) (REDIS_URL no_url_env)
        (queue_backend no_url_env) no_options
       = Inl (ConfigurationError ''WazzupMessageQueueService'')"
    using n by (simp add: constructors_throw no_options_def)
  let ?st0 = "\<lparr>redisStopFlagService = None, messageQueueService = None, direct_sends = [],
        agent_calls = [], memory_saved = [],
        route_logs = [(Warn, ''RedisStopFlagService init failed, stop commands disabled'')]\<rparr>"
  have i: "route_module_init no_url_env = ?st0"
    by (rule init_no_url [OF n])
  have s: "sendReplyToWazzup no_url_env demo_payload ?st0
      = sendReplyViaHttp no_url_env demo_payload (rlog Error ''reply: enqueue failed'' ?st0)"
    by (rule sendReply_without_url [OF n u(2)]) simp
  show ?thesis
    using u(1) c1 c2
    by (simp add: i s) (simp add: sendReplyViaHttp_def u rlog_def)
qed

text \<open>
  Claim C7, amended.  With no URL in the options and none (or an empty one) in the
  environment, the constructor of the stop-flag store and the constructor of the queue
  service throw at construction time.  The error leaves the constructor of the queue worker
  uncaught.  It is caught where the route module constructs the stop-flag store (a warning
  is logged and the module loads without the store) and where \<^verbatim>\<open>sendReplyToWazzup\<close>
  constructs the queue service (an error is logged and the reply takes the direct send).
\<close>

theorem missing_url_throws_and_where_it_is_caught:
  "(\<not> truthy (case opt_url of None \<Rightarrow> env_url | Some u \<Rightarrow> Some u) \<longrightarrow>
      RedisStopFlagService_new acc env_url sb opt_url opt_prefix
        = Inl (ConfigurationError ''RedisStopFlagService''))
   \<and> (\<not> truthy (case opt_redisUrl opts of None \<Rightarrow> env_url | Some u \<Rightarrow> Some u) \<longrightarrow>
      WazzupMessageQueueService_new acc env_url qb opts
        = Inl (ConfigurationError ''WazzupMessageQueueService''))
   \<and> (\<not> truthy env_url \<longrightarrow>
      WazzupQueueWorker_new acc env_url qb enabled
        = Inl (ConfigurationError ''WazzupMessageQueueService''))
   \<and> (\<not> truthy (REDIS_URL env) \<longrightarrow>
      route_module_init env =
        \<lparr>redisStopFlagService = None, messageQueueService = None, direct_sends = [],
         agent_calls = [], memory_saved = [],
         route_logs = [(Warn, ''RedisStopFlagService init failed, stop commands disabled'')]\<rparr>)
   \<and> (\<not> truthy (REDIS_URL env) \<and> USE_WAZZUP_QUEUE env \<and> messageQueueService st = None \<longrightarrow>
      sendReplyToWazzup env payload st
        = sendReplyViaHttp env payload (rlog Error ''reply: enqueue failed'' st))"
  using constructors_throw [of _ _ acc] init_no_url [of env] sendReply_without_url [of env st payload]
  by (simp add: WazzupQueueWorker_new_def no_options_def)

text \<open>Claim C7 at a process without \<^verbatim>\<open>REDIS_URL\<close>.\<close>

theorem missing_url_witness:
  "\<not> truthy (case None of None \<Rightarrow> None | Some u \<Rightarrow> Some u)
   \<and> RedisStopFlagService_new (\<lambda>u. True) None (\<lambda>k. None) None None
       = Inl (ConfigurationError ''RedisStopFlagService'')
   \<and> WazzupMessageQueueService_new (\<lambda>u. True) None (\<lambda>k. []) no_options
       = Inl (ConfigurationError ''WazzupMessageQueueService'')
   \<and> WazzupQueueWorker_new (\<lambda>u. True) None (\<lambda>k. []) True
       = Inl (ConfigurationError ''WazzupMessageQueueService'')
   \<and> \<not> truthy (REDIS_URL no_url_env) \<and> USE_WAZZUP_QUEUE no_url_env
   \<and> messageQueueService (route_module_init no_url_env) = None
   \<and> redisStopFlagService (route_module_init no_url_env) = None
   \<and> sendReplyToWazzup no_url_env demo_payload (route_module_init no_url_env)
       = sendReplyViaHttp no_url_env demo_payload
           (rlog Error ''reply: enqueue failed'' (route_module_init no_url_env))"
proof -
  have n: "\<not> truthy (REDIS_URL no_url_env)" by (rule no_url_env_facts)
  have q: "USE_WAZZUP_QUEUE no_url_env" by (simp add: no_url_env_def)
  have t: "\<not> truthy None" "opt_redisUrl no_options = None"
    by (simp_all add: truthy_def no_options_def)
  let ?st0 = "\<lparr>redisStopFlagService = None, messageQueueService = None, direct_sends = [],
        agent_calls = [], memory_saved = [],
        route_logs = [(Warn, ''RedisStopFlagService init failed, stop commands disabled'')]\<rparr>"
  have i: "route_module_init no_url_env = ?st0"
    by (rule init_no_url [OF n])
  have m: "messageQueueService ?st0 = None" by simp
  from missing_url_throws_and_where_it_is_caught
         [of None None "\<lambda>u. True" "\<lambda>k. None" None no_options "\<lambda>k. []" True no_url_env ?st0 demo_payload]
  show ?thesis
    using n q t m by (simp add: i)
qed

section \<open>Claim C8: what \<^verbatim>\<open>dequeue\<close> returns when there is nothing to return\<close>

text \<open>
  Claim C8.  With the backend reachable and the pop answered: when the main list yields
  nothing within the bound (the list is empty), \<^verbatim>\<open>dequeue\<close> returns null and raises
  nothing, leaving the lists as they are (the client is open and has sent one command).
  When the record popped from the head does not deserialise, \<^verbatim>\<open>dequeue\<close> also returns null:
  the record is gone from the main list without having been appended to it again, the
  dead-letters list is unchanged, and one error line is logged.
\<close>

theorem dequeue_null_on_timeout_or_corrupt_record:
  assumes "reachable env s" and "answers env (commands s)"
  shows "(redis_lists s (getQueueKey s) = [] \<longrightarrow>
            dequeue env s = (Inr None, (opened s)\<lparr>commands := Suc (commands s)\<rparr>))
       \<and> (redis_lists s (getQueueKey s) = e # rest \<and> JSON_parse e = None \<longrightarrow>
            fst (dequeue env s) = Inr None
          \<and> redis_lists (snd (dequeue env s)) (getQueueKey s) = rest
          \<and> redis_lists (snd (dequeue env s)) (getDeadLetterKey s)
              = redis_lists s (getDeadLetterKey s)
          \<and> logs (snd (dequeue env s)) = logs s @ [(Error, ''dequeue: parse failed'')])"
  using keys_differ [of s]
  by (cases e) (simp_all add: dequeue_reachable [OF assms] JSON_parse_def)

text \<open>
  Claim C8, at concrete inputs: an empty queue, and a queue whose head is not JSON and whose
  second record is a message.
\<close>

theorem dequeue_null_witness:
  "reachable demo_env open_service \<and> answers demo_env (commands open_service)
   \<and> redis_lists open_service (getQueueKey open_service) = []
   \<and> dequeue demo_env open_service = (Inr None, open_service\<lparr>commands := 1\<rparr>)
   \<and> redis_lists (snd (dequeue demo_env open_service)) = redis_lists open_service
   \<and> reachable demo_env (holding [Unparseable ''{not json'', Serialized older_message])
   \<and> answers demo_env (commands (holding [Unparseable ''{not json'', Serialized older_message]))
   \<and> JSON_parse (Unparseable ''{not json'') = None
   \<and> fst (dequeue demo_env (holding [Unparseable ''{not json'', Serialized older_message])) = Inr None
   \<and> redis_lists (snd (dequeue demo_env (holding [Unparseable ''{not json'', Serialized older_message])))
        ''mastra:wazzup-queue:main'' = [Serialized older_message]
   \<and> redis_lists (snd (dequeue demo_env (holding [Unparseable ''{not json'', Serialized older_message])))
        ''mastra:wazzup-queue:dead-letters'' = []"
proof -
  let ?s = "holding [Unparseable ''{not json'', Serialized older_message]"
  have r1: "reachable demo_env open_service" and r2: "reachable demo_env ?s"
    by (rule demo_ready)+
  have a1: "answers demo_env (commands open_service)" and a2: "answers demo_env (commands ?s)"
    by (simp_all add: demo_env_def)
  have e: "redis_lists open_service (getQueueKey open_service) = []"
    by (simp add: open_service_def)
  have q: "redis_lists ?s (getQueueKey ?s) = Unparseable ''{not json'' # [Serialized older_message]"
    by (simp add: demo_keys) (simp add: holding_def)
  have p: "JSON_parse (Unparseable ''{not json'') = None"
    by (simp add: JSON_parse_def)
  have d: "redis_lists ?s ''mastra:wazzup-queue:dead-letters'' = []"
    by (simp add: holding_def open_service_def)
  show ?thesis
    using r1 r2 a1 a2 e p d
      dequeue_null_on_timeout_or_corrupt_record [OF r1 a1, of "Unparseable ''x''" "[]"]
      dequeue_null_on_timeout_or_corrupt_record [OF r2 a2, of "Unparseable ''{not json''" "[Serialized older_message]"]
      q
    by (simp add: demo_keys open_service_def)
qed

section \<open>Claim C9: which records the persistence path considers\<close>

text \<open>
  Claim C9.  The records \<^verbatim>\<open>persistOutboundMessages\<close> works on are those of the payload
  with a non-empty chat id, the status \<^verbatim>\<open>"sent"\<close> and a chat id in the allowlist, in payload
  order.  Any other record (another status, a chat outside the allowlist) can be taken out
  of the payload without changing the result: nothing is saved, no stop-flag call is made
  and nothing is logged on its account.  A payload with no such record leaves the state
  untouched.
\<close>

theorem persistence_ignores_other_records:
  "outboundMessages messages A = filter (persist_candidate A) messages
   \<and> (\<not> persist_candidate A x \<longrightarrow>
        persistOutboundMessages env (pre @ x # post) A st
          = persistOutboundMessages env (pre @ post) A st)
   \<and> ((\<forall>m \<in> set messages. \<not> persist_candidate A m) \<longrightarrow>
        persistOutboundMessages env messages A st = st)"
proof -
  have "\<forall>m \<in> set messages. \<not> persist_candidate A m \<Longrightarrow> filter (persist_candidate A) messages = []"
    by (induction messages) auto
  then show ?thesis
    by (auto simp: persistOutboundMessages_def outboundMessages_filter)
qed

text \<open>
  Claim C9 at a record with status \<^verbatim>\<open>"delivered"\<close> and at a record of a chat outside the
  allowlist, each with the text \<^verbatim>\<open>/stop\<close>.
\<close>

theorem persistence_ignores_witness:
  "\<not> persist_candidate [''77066318623''] (text_message ''m3'' ''77066318623'' ''delivered'' ''/stop'')
   \<and> \<not> persist_candidate [''77066318623''] (text_message ''m4'' ''70000000000'' ''sent'' ''/stop'')
   \<and> persist_candidate [''77066318623''] (text_message ''m5'' ''77066318623'' ''sent'' ''note'')
   \<and> persistOutboundMessages url_env
        [text_message ''m3'' ''77066318623'' ''delivered'' ''/stop'',
         text_message ''m5'' ''77066318623'' ''sent'' ''note'']
        [''77066318623''] (route_module_init url_env)
      = persistOutboundMessages url_env
        [text_message ''m5'' ''77066318623'' ''sent'' ''note'']
        [''77066318623''] (route_module_init url_env)
   \<and> persistOutboundMessages url_env
        [text_message ''m3'' ''77066318623'' ''delivered'' ''/stop'',
         text_message ''m4'' ''70000000000'' ''sent'' ''/stop'']
        [''77066318623''] (route_module_init url_env)
      = route_module_init url_env"
proof -
  let ?a = "text_message ''m3'' ''77066318623'' ''delivered'' ''/stop''"
  let ?b = "text_message ''m4'' ''70000000000'' ''sent'' ''/stop''"
  have na: "\<not> persist_candidate [''77066318623''] ?a"
    and nb: "\<not> persist_candidate [''77066318623''] ?b"
    and c: "persist_candidate [''77066318623''] (text_message ''m5'' ''77066318623'' ''sent'' ''note'')"
    by (simp_all add: persist_candidate_def text_message_def)
  have all: "\<forall>m \<in> set [?a, ?b]. \<not> persist_candidate [''77066318623''] m"
    using na nb by simp
  show ?thesis
    using na nb c all
      persistence_ignores_other_records [of "[?a, ?b]" "[''77066318623'']" ?a url_env "[]"
        "[text_message ''m5'' ''77066318623'' ''sent'' ''note'']" "route_module_init url_env"]
    by simp
qed

end
